theory Spec2Isabelle
  imports Complex_Main "HOL-Library.Log_Nat"
begin

section \<open>JavaScript values\<close>

text \<open>
  A JavaScript number is a binary64 value: a finite number, given by its real value,
  one of the two infinities or NaN. The sign of zero is not modelled: a zero is the
  positive zero.
\<close>

datatype jsnum = Fin real | PInf | NInf | NaN

text \<open>
  The binary exponent of a positive number \<open>a\<close>, the integer \<open>e\<close> with
  \<open>2 powi e \<le> a < 2 powi (e + 1)\<close>, from the number of binary digits of the integer part
  of \<open>a\<close>, or of the inverse of \<open>a\<close> when \<open>a\<close> is below 1.
\<close>

definition binary_exponent :: "real \<Rightarrow> int" where
  "binary_exponent a =
     (if 1 \<le> a then int (floorlog 2 (nat \<lfloor>a\<rfloor>)) - 1
      else - int (floorlog 2 (nat (\<lceil>1 / a\<rceil> - 1))))"

text \<open>
  Rounding of a real number to binary64, to the nearest number with ties to the even
  significand: the result is a multiple of the unit in the last place, 2 to the power
  \<open>e - 52\<close>, where \<open>e\<close> is the binary exponent of the number, and -1022 for the numbers
  below the normal range; a result of magnitude 2 to the power 1024 is an infinity.
\<close>

definition round_half_even :: "real \<Rightarrow> int" where
  "round_half_even m =
     (let f = \<lfloor>m\<rfloor>; d = m - of_int f
      in if d < 1 / 2 then f else if 1 / 2 < d then f + 1 else if even f then f else f + 1)"

definition binary64 :: "real \<Rightarrow> jsnum" where
  "binary64 x =
     (if x = 0 then Fin 0
      else
        (let e = max (binary_exponent \<bar>x\<bar>) (- 1022);
             u = 2 powi (e - 52);
             y = of_int (round_half_even (x / u)) * u
         in if 2 ^ 1024 \<le> \<bar>y\<bar> then (if 0 < x then PInf else NInf) else Fin y))"

text \<open>The operators \<^verbatim>\<open>*\<close>, \<^verbatim>\<open>+\<close>, \<^verbatim>\<open>/\<close>, \<^verbatim>\<open><\<close> on numbers: on finite numbers the exact
  result, rounded.\<close>

definition signed_inf :: "real \<Rightarrow> jsnum" where
  "signed_inf s = (if s = 0 then NaN else if 0 < s then PInf else NInf)"

fun js_mul :: "jsnum \<Rightarrow> jsnum \<Rightarrow> jsnum" where
  "js_mul NaN b = NaN"
| "js_mul a NaN = NaN"
| "js_mul (Fin x) (Fin y) = binary64 (x * y)"
| "js_mul (Fin x) PInf = signed_inf x"
| "js_mul (Fin x) NInf = signed_inf (- x)"
| "js_mul PInf (Fin y) = signed_inf y"
| "js_mul NInf (Fin y) = signed_inf (- y)"
| "js_mul PInf PInf = PInf"
| "js_mul NInf NInf = PInf"
| "js_mul PInf NInf = NInf"
| "js_mul NInf PInf = NInf"

fun js_add :: "jsnum \<Rightarrow> jsnum \<Rightarrow> jsnum" where
  "js_add NaN b = NaN"
| "js_add a NaN = NaN"
| "js_add (Fin x) (Fin y) = binary64 (x + y)"
| "js_add PInf NInf = NaN"
| "js_add NInf PInf = NaN"
| "js_add PInf b = PInf"
| "js_add NInf b = NInf"
| "js_add a PInf = PInf"
| "js_add a NInf = NInf"

fun js_div :: "jsnum \<Rightarrow> jsnum \<Rightarrow> jsnum" where
  "js_div NaN b = NaN"
| "js_div a NaN = NaN"
| "js_div (Fin x) (Fin y) = (if y = 0 then signed_inf x else binary64 (x / y))"
| "js_div (Fin x) PInf = Fin 0"
| "js_div (Fin x) NInf = Fin 0"
| "js_div PInf (Fin y) = (if 0 \<le> y then PInf else NInf)"
| "js_div NInf (Fin y) = (if 0 \<le> y then NInf else PInf)"
| "js_div a b = NaN"

fun js_lt :: "jsnum \<Rightarrow> jsnum \<Rightarrow> bool" where
  "js_lt NaN b = False"
| "js_lt a NaN = False"
| "js_lt (Fin x) (Fin y) = (x < y)"
| "js_lt NInf NInf = False"
| "js_lt NInf b = True"
| "js_lt a PInf = (a \<noteq> PInf)"
| "js_lt a b = False"

definition js_gt :: "jsnum \<Rightarrow> jsnum \<Rightarrow> bool" where
  "js_gt a b = js_lt b a"

text \<open>\<^verbatim>\<open>Math.max\<close> and \<^verbatim>\<open>Math.min\<close> of a spread array: NaN if any argument is NaN,
  \<open>-Infinity\<close> resp. \<open>Infinity\<close> for no argument.\<close>

definition js_max2 :: "jsnum \<Rightarrow> jsnum \<Rightarrow> jsnum" where
  "js_max2 a b = (if a = NaN \<or> b = NaN then NaN else if js_lt a b then b else a)"

definition js_min2 :: "jsnum \<Rightarrow> jsnum \<Rightarrow> jsnum" where
  "js_min2 a b = (if a = NaN \<or> b = NaN then NaN else if js_lt b a then b else a)"

definition Math_max :: "jsnum list \<Rightarrow> jsnum" where
  "Math_max vs = foldl js_max2 NInf vs"

definition Math_min :: "jsnum list \<Rightarrow> jsnum" where
  "Math_min vs = foldl js_min2 PInf vs"

text \<open>
  A value of type \<^verbatim>\<open>any\<close>. Objects and arrays are given by their contents; two object
  values met by the embedded code never are the same reference, so \<^verbatim>\<open>includes\<close> never
  finds an object.
\<close>

datatype jsval =
    JUndefined
  | JNull
  | JBool bool
  | JNum jsnum
  | JStr string
  | JObj "(string \<times> jsval) list"
  | JArr "jsval list"

fun typeof :: "jsval \<Rightarrow> string" where
  "typeof JUndefined = ''undefined''"
| "typeof JNull = ''object''"
| "typeof (JBool b) = ''boolean''"
| "typeof (JNum n) = ''number''"
| "typeof (JStr s) = ''string''"
| "typeof (JObj kv) = ''object''"
| "typeof (JArr vs) = ''object''"

text \<open>Truthiness of a value, as \<^verbatim>\<open>if (v)\<close>, \<^verbatim>\<open>!v\<close>, \<^verbatim>\<open>a && b\<close>, \<^verbatim>\<open>a || b\<close> test it.\<close>

fun truthy :: "jsval \<Rightarrow> bool" where
  "truthy JUndefined = False"
| "truthy JNull = False"
| "truthy (JBool b) = b"
| "truthy (JNum n) = (n \<noteq> NaN \<and> n \<noteq> Fin 0)"
| "truthy (JStr s) = (s \<noteq> [])"
| "truthy (JObj kv) = True"
| "truthy (JArr vs) = True"

text \<open>The operator \<^verbatim>\<open>??\<close>: the right operand replaces \<^verbatim>\<open>undefined\<close> and \<^verbatim>\<open>null\<close> only.\<close>

definition nullish :: "jsval \<Rightarrow> bool" where
  "nullish v = (v = JUndefined \<or> v = JNull)"

definition js_coalesce :: "jsval \<Rightarrow> jsval \<Rightarrow> jsval" where
  "js_coalesce a b = (if nullish a then b else a)"

text \<open>\<^verbatim>\<open>Array.prototype.includes\<close> compares with SameValueZero: NaN is found, an
  object only by identity.\<close>

fun same_value_zero :: "jsval \<Rightarrow> jsval \<Rightarrow> bool" where
  "same_value_zero (JObj a) b = False"
| "same_value_zero (JArr a) b = False"
| "same_value_zero a b = (a = b)"

definition array_includes :: "jsval list \<Rightarrow> jsval \<Rightarrow> bool" where
  "array_includes vs v = list_ex (\<lambda>x. same_value_zero x v) vs"

text \<open>A string option read as a condition: \<^verbatim>\<open>undefined\<close> and \<^verbatim>\<open>""\<close> are falsy.\<close>

definition given :: "string option \<Rightarrow> bool" where
  "given s = (case s of None \<Rightarrow> False | Some t \<Rightarrow> t \<noteq> [])"

section \<open>Strings\<close>

text \<open>
  Strings are taken over ASCII: \<^verbatim>\<open>toLowerCase\<close> maps \<open>A\<close>..\<open>Z\<close> to \<open>a\<close>..\<open>z\<close>, and the
  class \<^verbatim>\<open>\s\<close> is tab, line feed, vertical tab, form feed, carriage return and space.
\<close>

definition lower_char :: "char \<Rightarrow> char" where
  "lower_char c =
     (let n = (of_char c :: nat) in if 65 \<le> n \<and> n \<le> 90 then char_of (n + 32) else c)"

definition toLowerCase :: "string \<Rightarrow> string" where
  "toLowerCase s = map lower_char s"

definition upper_char :: "char \<Rightarrow> char" where
  "upper_char c =
     (let n = (of_char c :: nat) in if 97 \<le> n \<and> n \<le> 122 then char_of (n - 32) else c)"

definition is_space :: "char \<Rightarrow> bool" where
  "is_space c = (let n = (of_char c :: nat) in (9 \<le> n \<and> n \<le> 13) \<or> n = 32)"

definition is_digit :: "char \<Rightarrow> bool" where
  "is_digit c = (let n = (of_char c :: nat) in 48 \<le> n \<and> n \<le> 57)"

definition is_lower_az :: "char \<Rightarrow> bool" where
  "is_lower_az c = (let n = (of_char c :: nat) in 97 \<le> n \<and> n \<le> 122)"

definition trim :: "string \<Rightarrow> string" where
  "trim s = rev (dropWhile is_space (rev (dropWhile is_space s)))"

fun starts_with :: "string \<Rightarrow> string \<Rightarrow> bool" where
  "starts_with s [] = True"
| "starts_with [] (p # ps) = False"
| "starts_with (c # cs) (p # ps) = (c = p \<and> starts_with cs ps)"

text \<open>\<^verbatim>\<open>s.includes(p)\<close>: \<open>p\<close> occurs in \<open>s\<close> as a contiguous substring.\<close>

fun str_includes :: "string \<Rightarrow> string \<Rightarrow> bool" where
  "str_includes [] p = (p = [])"
| "str_includes (c # cs) p = (starts_with (c # cs) p \<or> str_includes cs p)"

text \<open>\<^verbatim>\<open>s.replace(/C+/g, r)\<close> for a character class \<open>C\<close>: every maximal run of class
  characters becomes one copy of \<open>r\<close>.\<close>

fun replace_runs :: "(char \<Rightarrow> bool) \<Rightarrow> string \<Rightarrow> bool \<Rightarrow> string \<Rightarrow> string" where
  "replace_runs C r in_run [] = []"
| "replace_runs C r in_run (c # cs) =
     (if C c then (if in_run then replace_runs C r True cs else r @ replace_runs C r True cs)
      else c # replace_runs C r False cs)"

text \<open>\<^verbatim>\<open>s.split(/C+/)\<close> for a character class \<open>C\<close>: the pieces between maximal runs of
  class characters, with the empty pieces at either end.\<close>

fun split_runs :: "(char \<Rightarrow> bool) \<Rightarrow> bool \<Rightarrow> string \<Rightarrow> string \<Rightarrow> string list" where
  "split_runs C in_run cur [] = [rev cur]"
| "split_runs C in_run cur (c # cs) =
     (if C c then (if in_run then split_runs C True cur cs
                   else rev cur # split_runs C True [] cs)
      else split_runs C False (c # cur) cs)"

definition is_sep :: "char \<Rightarrow> bool" where
  "is_sep c = (c = CHR ''_'' \<or> is_space c)"

section \<open>Telemetry records and resolved queries\<close>

text \<open>
  A telemetry record is read by field name (\<^verbatim>\<open>record.haulPathId\<close>,
  \<^verbatim>\<open>(record as any)[fieldName]\<close>); an absent field is \<^verbatim>\<open>undefined\<close>. The timestamp is the
  \<^verbatim>\<open>getTime()\<close> of its date.
\<close>

record TelemetryRecord =
  timestamp :: int
  props :: "string \<Rightarrow> jsval"

definition haulPathId :: "TelemetryRecord \<Rightarrow> jsval" where
  "haulPathId r = props r ''haulPathId''"

record TimeWindow =
  minutes :: jsnum
  startTime :: "int option"
  endTime :: "int option"

section \<open>Entities and the twin model\<close>

text \<open>
  An item of an entity's \<^verbatim>\<open>contents\<close> array: the members the embedded code reads
  (\<^verbatim>\<open>@type\<close>, \<^verbatim>\<open>name\<close>, \<^verbatim>\<open>displayName\<close>, \<^verbatim>\<open>schema\<close>, \<^verbatim>\<open>value\<close>, \<^verbatim>\<open>initialValue\<close>,
  \<^verbatim>\<open>writable\<close>); an absent member is \<^verbatim>\<open>undefined\<close>.
\<close>

record ContentItem =
  c_type :: jsval
  c_name :: string
  c_displayName :: jsval
  c_schema :: jsval
  c_value :: jsval
  c_initialValue :: jsval
  c_writable :: jsval

record PropertyConstraints =
  pc_min :: "jsnum option"
  pc_max :: "jsnum option"
  pc_allowedValues :: "jsval list option"
  pc_readOnly :: "bool option"

record PropertyValue =
  pv_value :: jsval
  pv_type :: string
  pv_editable :: "bool option"
  pv_constraints :: "PropertyConstraints option"

text \<open>
  An entity, with the members the embedded code reads. \<^verbatim>\<open>properties\<close> and
  \<^verbatim>\<open>relationships\<close> are plain objects, given by their own keys.
\<close>

record Entity =
  e_id :: string
  e_displayName :: "string option"
  e_contents :: "ContentItem list"
  e_type :: "string option"
  e_properties :: "(string \<rightharpoonup> PropertyValue) option"
  e_relationships :: "(string \<rightharpoonup> string) option"

text \<open>
  The model's \<^verbatim>\<open>Map<string, Entity>\<close>: an association list in insertion order.
  \<^verbatim>\<open>Map.set\<close> keeps the position of a key that is present and appends a new one.
\<close>

type_synonym DTDLModel = "(string \<times> Entity) list"

fun map_set :: "string \<Rightarrow> Entity \<Rightarrow> DTDLModel \<Rightarrow> DTDLModel" where
  "map_set k v [] = [(k, v)]"
| "map_set k v (p # ps) = (if fst p = k then (k, v) # ps else p # map_set k v ps)"

definition addEntity :: "DTDLModel \<Rightarrow> Entity \<Rightarrow> DTDLModel" where
  "addEntity m e = map_set (e_id e) e m"

definition newDTDLModel :: "Entity list \<Rightarrow> DTDLModel" where
  "newDTDLModel entities = foldl addEntity [] entities"

definition getEntity :: "DTDLModel \<Rightarrow> string \<Rightarrow> Entity option" where
  "getEntity m i = map_of m i"

definition getAllEntities :: "DTDLModel \<Rightarrow> Entity list" where
  "getAllEntities m = map snd m"

definition getEntitiesByType :: "DTDLModel \<Rightarrow> string \<Rightarrow> Entity list" where
  "getEntitiesByType m t = filter (\<lambda>e. e_type e = Some t) (getAllEntities m)"

record UpdateResult =
  u_success :: bool
  u_entityId :: string
  u_property :: string
  u_oldValue :: jsval
  u_newValue :: jsval
  u_error :: "string option"

text \<open>The two error texts of \<^verbatim>\<open>updateEntityProperty\<close>, by their parts.\<close>

definition quoted :: "string \<Rightarrow> string" where
  "quoted s = [CHR 0x27] @ s @ [CHR 0x27]"

definition entity_not_found_text :: "string \<Rightarrow> string" where
  "entity_not_found_text entityId = ''Entity '' @ quoted entityId @ '' not found''"

definition property_missing_text :: "string \<Rightarrow> string \<Rightarrow> string" where
  "property_missing_text property entityId =
     ''Property '' @ quoted property @ '' does not exist on entity '' @ quoted entityId"

definition is_property_named :: "string \<Rightarrow> ContentItem \<Rightarrow> bool" where
  "is_property_named property c = (c_type c = JStr ''Property'' \<and> c_name c = property)"

text \<open>Assignment to the first array element that \<^verbatim>\<open>find\<close> returns.\<close>

fun update_first :: "('a \<Rightarrow> bool) \<Rightarrow> ('a \<Rightarrow> 'a) \<Rightarrow> 'a list \<Rightarrow> 'a list" where
  "update_first P f [] = []"
| "update_first P f (x # xs) = (if P x then f x # xs else x # update_first P f xs)"

text \<open>The entry that the cache holds under a name, as a key of its own.\<close>

definition cached_property :: "Entity \<Rightarrow> string \<Rightarrow> PropertyValue option" where
  "cached_property entity property =
     (case e_properties entity of None \<Rightarrow> None | Some ps \<Rightarrow> ps property)"

text \<open>
  The cache is a plain object, so \<^verbatim>\<open>entity.properties[property]\<close> yields the entry of
  an own key and, for any other name, the member of that name of \<^verbatim>\<open>Object.prototype\<close>:
  one of its eleven functions or, for \<^verbatim>\<open>__proto__\<close>, \<^verbatim>\<open>Object.prototype\<close> itself. Each of
  these is an object, hence truthy, as is an entry of the cache.
\<close>

definition object_prototype_functions :: "string list" where
  "object_prototype_functions =
     [''constructor'', ''__defineGetter__'', ''__defineSetter__'', ''hasOwnProperty'',
      ''__lookupGetter__'', ''__lookupSetter__'', ''isPrototypeOf'', ''propertyIsEnumerable'',
      ''toString'', ''valueOf'', ''toLocaleString'']"

datatype Member = Cached PropertyValue | PrototypeFunction string | ObjectPrototype

definition properties_lookup :: "Entity \<Rightarrow> string \<Rightarrow> Member option" where
  "properties_lookup entity property =
     (case e_properties entity of
        None \<Rightarrow> None
      | Some ps \<Rightarrow>
          (case ps property of
             Some pv \<Rightarrow> Some (Cached pv)
           | None \<Rightarrow>
               if property \<in> set object_prototype_functions then Some (PrototypeFunction property)
               else if property = ''__proto__'' then Some ObjectPrototype
               else None))"

text \<open>
  The functions of \<^verbatim>\<open>Object.prototype\<close> are shared by all objects of the program. A realm
  gives the member \<^verbatim>\<open>value\<close> that such a function has been given so far;
  \<^verbatim>\<open>Object.prototype\<close> itself has no member \<^verbatim>\<open>value\<close>. An assignment to the member
  \<^verbatim>\<open>value\<close> of one of these shared objects is a shared write.
\<close>

type_synonym Realm = "string \<rightharpoonup> jsval"

datatype SharedWrite = FunctionValue string jsval | ObjectPrototypeValue jsval

text \<open>
  \<^verbatim>\<open>DTDLModel.updateEntityProperty\<close>. The entity object is mutated in place: the
  map's entry for the key holds the changed entity afterwards, at its old position.
  The second component says whether the warning (property in the cache, not in the
  contents) was logged, the last one which shared object was written.
\<close>

definition updateEntityProperty ::
  "Realm \<Rightarrow> DTDLModel \<Rightarrow> string \<Rightarrow> string \<Rightarrow> jsval
   \<Rightarrow> UpdateResult \<times> bool \<times> DTDLModel \<times> SharedWrite option" where
  "updateEntityProperty realm m entityId property v =
     (case getEntity m entityId of
        None \<Rightarrow>
          (\<lparr>u_success = False, u_entityId = entityId, u_property = property,
            u_oldValue = JUndefined, u_newValue = v,
            u_error = Some (entity_not_found_text entityId)\<rparr>, False, m, None)
      | Some entity \<Rightarrow>
          (case properties_lookup entity property of
             None \<Rightarrow>
               (\<lparr>u_success = False, u_entityId = entityId, u_property = property,
                 u_oldValue = JUndefined, u_newValue = v,
                 u_error = Some (property_missing_text property entityId)\<rparr>, False, m, None)
           | Some member \<Rightarrow>
               (let oldValue = (case member of
                        Cached pv \<Rightarrow> pv_value pv
                      | PrototypeFunction f \<Rightarrow>
                          (case realm f of Some old \<Rightarrow> old | None \<Rightarrow> JUndefined)
                      | ObjectPrototype \<Rightarrow> JUndefined);
                    entity1 = (case member of
                        Cached pv \<Rightarrow>
                          entity\<lparr>e_properties :=
                            map_option (\<lambda>ps. ps(property \<mapsto> pv\<lparr>pv_value := v\<rparr>))
                              (e_properties entity)\<rparr>
                      | _ \<Rightarrow> entity);
                    written = (case member of
                        Cached pv \<Rightarrow> None
                      | PrototypeFunction f \<Rightarrow> Some (FunctionValue f v)
                      | ObjectPrototype \<Rightarrow> Some (ObjectPrototypeValue v));
                    found = find (is_property_named property) (e_contents entity1);
                    entity2 = (case found of
                        Some propertyContent \<Rightarrow>
                          entity1\<lparr>e_contents :=
                            update_first (is_property_named property) (\<lambda>c. c\<lparr>c_value := v\<rparr>)
                              (e_contents entity1)\<rparr>
                      | None \<Rightarrow> entity1)
                in (\<lparr>u_success = True, u_entityId = entityId, u_property = property,
                     u_oldValue = oldValue, u_newValue = v, u_error = None\<rparr>,
                    found = None,
                    map_set entityId entity2 m,
                    written))))"

section \<open>Property descriptors, resolved queries and results\<close>

record DTDLPropertyInfo =
  d_name :: string
  d_displayName :: jsval
  d_type :: string
  d_schema :: jsval
  d_value :: jsval
  d_initialValue :: jsval
  d_writable :: bool
  d_dtdlProperty :: ContentItem

record TelemetryPropertyInfo =
  t_name :: string
  t_type :: string
  t_units :: "string option"
  t_telemetryField :: string

text \<open>The union \<^verbatim>\<open>PropertyInfo\<close>; the constructor is the member \<^verbatim>\<open>source\<close>
  (\<^verbatim>\<open>"dtdl"\<close> or \<^verbatim>\<open>"telemetry"\<close>).\<close>

datatype PropertyInfo = DTDL DTDLPropertyInfo | Telemetry TelemetryPropertyInfo

datatype Source = Src_dtdl | Src_telemetry

fun source :: "PropertyInfo \<Rightarrow> Source" where
  "source (DTDL d) = Src_dtdl"
| "source (Telemetry t) = Src_telemetry"

fun prop_name :: "PropertyInfo \<Rightarrow> string" where
  "prop_name (DTDL d) = d_name d"
| "prop_name (Telemetry t) = t_name t"

fun prop_units :: "PropertyInfo \<Rightarrow> string option" where
  "prop_units (DTDL d) = None"
| "prop_units (Telemetry t) = t_units t"

datatype Intent = I_get_property | I_aggregate | I_count | I_current | I_relationship

datatype Operation = OpAverage | OpMax | OpMin | OpSum

record Filters =
  f_sourcePath :: "string option"
  f_destinationPath :: "string option"
  f_relationshipName :: "string option"
  f_relationshipTarget :: "string option"

record ResolvedQuery =
  q_intent :: Intent
  q_targetEntity :: Entity
  q_property :: "PropertyInfo option"
  q_operation :: "Operation option"
  q_timeWindow :: TimeWindow
  q_filters :: "Filters option"

record Metadata =
  recordCount :: "nat option"
  timeWindow :: "TimeWindow option"

record QueryResult =
  r_value :: jsval
  r_units :: string
  r_metadata :: "Metadata option"

text \<open>The errors the executors throw.\<close>

datatype ExecError =
    RequiresOperation
  | RequiresProperty
  | NoRecordToRead

definition filters_sourcePath :: "ResolvedQuery \<Rightarrow> string option" where
  "filters_sourcePath q = (case q_filters q of None \<Rightarrow> None | Some f \<Rightarrow> f_sourcePath f)"

definition filters_destinationPath :: "ResolvedQuery \<Rightarrow> string option" where
  "filters_destinationPath q = (case q_filters q of None \<Rightarrow> None | Some f \<Rightarrow> f_destinationPath f)"

definition of_count :: "nat \<Rightarrow> jsval" where
  "of_count n = JNum (Fin (real n))"

section \<open>Count executor\<close>

definition trip_step :: "string \<Rightarrow> string \<Rightarrow> nat \<times> bool \<Rightarrow> TelemetryRecord \<Rightarrow> nat \<times> bool" where
  "trip_step sourcePath destinationPath st record =
     (let tripCount = fst st; wasOnSource = snd st;
          isOnSource = (haulPathId record = JStr sourcePath);
          isOnDestination = (haulPathId record = JStr destinationPath)
      in if isOnSource then (tripCount, True)
         else if isOnDestination \<and> wasOnSource then (tripCount + 1, False)
         else (tripCount, wasOnSource))"

definition countTripsBetweenPaths :: "TelemetryRecord list \<Rightarrow> string \<Rightarrow> string \<Rightarrow> nat" where
  "countTripsBetweenPaths telemetry sourcePath destinationPath =
     fst (foldl (trip_step sourcePath destinationPath) (0, False) telemetry)"

definition path_step :: "string \<Rightarrow> nat \<times> bool \<Rightarrow> TelemetryRecord \<Rightarrow> nat \<times> bool" where
  "path_step pathId st record =
     (let tripCount = fst st; wasOnPath = snd st;
          isOnPath = (haulPathId record = JStr pathId)
      in (if isOnPath \<and> \<not> wasOnPath then tripCount + 1 else tripCount, isOnPath))"

definition countTripsOnPath :: "TelemetryRecord list \<Rightarrow> string \<Rightarrow> nat" where
  "countTripsOnPath telemetry pathId = fst (foldl (path_step pathId) (0, False) telemetry)"

text \<open>\<^verbatim>\<open>a !== b\<close> on arbitrary values: NaN differs from itself, and two objects read
  from two records are two references.\<close>

fun strict_neq :: "jsval \<Rightarrow> jsval \<Rightarrow> bool" where
  "strict_neq (JObj a) b = True"
| "strict_neq (JArr a) b = True"
| "strict_neq (JNum NaN) b = True"
| "strict_neq a b = (a \<noteq> b)"

definition entry_step :: "nat \<times> jsval \<Rightarrow> TelemetryRecord \<Rightarrow> nat \<times> jsval" where
  "entry_step st record =
     (let tripCount = fst st; lastPathId = snd st;
          currentPathId = haulPathId record
      in (if truthy currentPathId \<and> strict_neq currentPathId lastPathId
          then tripCount + 1 else tripCount, currentPathId))"

definition countAllPathEntries :: "TelemetryRecord list \<Rightarrow> nat" where
  "countAllPathEntries telemetry = fst (foldl entry_step (0, JUndefined) telemetry)"

definition count_execute :: "ResolvedQuery \<Rightarrow> TelemetryRecord list \<Rightarrow> QueryResult" where
  "count_execute resolvedQuery telemetry =
     (if telemetry = [] then
        \<lparr>r_value = of_count 0, r_units = ''trips'',
         r_metadata = Some \<lparr>recordCount = Some 0, timeWindow = None\<rparr>\<rparr>
      else
        (let count =
           (case (filters_sourcePath resolvedQuery, filters_destinationPath resolvedQuery) of
              (Some s, Some d) \<Rightarrow>
                if s \<noteq> [] \<and> d \<noteq> [] \<and> s \<noteq> d then countTripsBetweenPaths telemetry s d
                else if s \<noteq> [] then countTripsOnPath telemetry s
                else countAllPathEntries telemetry
            | (Some s, None) \<Rightarrow>
                if s \<noteq> [] then countTripsOnPath telemetry s
                else countAllPathEntries telemetry
            | (None, _) \<Rightarrow> countAllPathEntries telemetry)
         in \<lparr>r_value = of_count count, r_units = ''trips'',
             r_metadata = Some \<lparr>recordCount = Some (length telemetry),
                                timeWindow = Some (q_timeWindow resolvedQuery)\<rparr>\<rparr>))"

section \<open>Property executor\<close>

definition degree_F :: string where
  "degree_F = [CHR 0xB0, CHR ''F'']"

definition units_by_name :: "PropertyInfo \<Rightarrow> string" where
  "units_by_name property =
     (let propertyName = toLowerCase (prop_name property) in
      if str_includes propertyName ''temp'' \<or> str_includes propertyName ''temperature''
        then degree_F
      else if str_includes propertyName ''level'' \<or> str_includes propertyName ''fuel''
        then ''%''
      else if str_includes propertyName ''heading'' then ''degrees''
      else if str_includes propertyName ''payload'' then ''tonnes''
      else if str_includes propertyName ''speed'' \<and> source property = Src_telemetry
        then ''km/h''
      else [])"

definition getUnitsForProperty :: "PropertyInfo \<Rightarrow> string" where
  "getUnitsForProperty property =
     (case prop_units property of
        Some u \<Rightarrow> if u \<noteq> [] then u else units_by_name property
      | None \<Rightarrow> units_by_name property)"

text \<open>\<^verbatim>\<open>telemetryProperty.telemetryField || telemetryProperty.name\<close>\<close>

definition field_of :: "TelemetryPropertyInfo \<Rightarrow> string" where
  "field_of tp = (if t_telemetryField tp \<noteq> [] then t_telemetryField tp else t_name tp)"

text \<open>The number that the literal \<^verbatim>\<open>1.60934\<close> denotes.\<close>

definition mph_to_kmh :: jsnum where
  "mph_to_kmh = binary64 1.60934"

text \<open>
  \<^verbatim>\<open>PropertyExecutor.execute\<close>. The copy of the records is sorted by descending
  timestamp with the stable \<^verbatim>\<open>Array.prototype.sort\<close>, and its first element is read.
\<close>

definition property_execute ::
  "ResolvedQuery \<Rightarrow> TelemetryRecord list \<Rightarrow> ExecError + QueryResult" where
  "property_execute resolvedQuery telemetry =
     (case q_property resolvedQuery of
        None \<Rightarrow> Inl RequiresProperty
      | Some (DTDL dtdlProperty) \<Rightarrow>
          Inr \<lparr>r_value = js_coalesce (js_coalesce (d_value dtdlProperty)
                                        (d_initialValue dtdlProperty)) (JStr ''N/A''),
               r_units = getUnitsForProperty (DTDL dtdlProperty),
               r_metadata = None\<rparr>
      | Some (Telemetry telemetryProperty) \<Rightarrow>
          if telemetry = [] then
            Inr \<lparr>r_value = JStr ''N/A'',
                 r_units = getUnitsForProperty (Telemetry telemetryProperty),
                 r_metadata = Some \<lparr>recordCount = Some 0, timeWindow = None\<rparr>\<rparr>
          else
            (case sort_key (\<lambda>r. - timestamp r) telemetry of
               [] \<Rightarrow> Inl NoRecordToRead
             | mostRecent # rest \<Rightarrow>
                 (let fieldName = field_of telemetryProperty;
                      v = props mostRecent fieldName;
                      plain = \<lparr>r_value = js_coalesce v (JStr ''N/A''),
                               r_units = getUnitsForProperty (Telemetry telemetryProperty),
                               r_metadata = Some \<lparr>recordCount = Some (length telemetry),
                                                  timeWindow = None\<rparr>\<rparr>
                  in case v of
                       JNum n \<Rightarrow>
                         if fieldName = ''speedMph''
                         then Inr (plain\<lparr>r_value := JNum (js_mul n mph_to_kmh),
                                         r_units := ''km/h''\<rparr>)
                         else Inr plain
                     | _ \<Rightarrow> Inr plain)))"

section \<open>Aggregate executor\<close>

definition degree_F_aggregate :: string where
  "degree_F_aggregate = [CHR 0xC2, CHR 0xB0, CHR ''F'']"

definition aggregate_units :: "PropertyInfo option \<Rightarrow> string" where
  "aggregate_units property =
     (let by_name =
            (let propertyName = (case property of None \<Rightarrow> []
                                 | Some p \<Rightarrow> toLowerCase (prop_name p)) in
             if str_includes propertyName ''speed'' then ''km/h''
             else if str_includes propertyName ''temp'' \<or>
                     str_includes propertyName ''temperature'' then degree_F_aggregate
             else if str_includes propertyName ''level'' \<or>
                     str_includes propertyName ''fuel'' then ''%''
             else [])
      in case property of
           None \<Rightarrow> by_name
         | Some p \<Rightarrow> (case prop_units p of
                        Some u \<Rightarrow> if u \<noteq> [] then u else by_name
                      | None \<Rightarrow> by_name))"

text \<open>\<^verbatim>\<open>TelemetryService.calculateRouteUtilization\<close>\<close>

definition calculateRouteUtilization :: "TelemetryRecord list \<Rightarrow> jsnum \<Rightarrow> jsnum" where
  "calculateRouteUtilization records timeWindowMinutes =
     (if records = [] then Fin 0
      else js_mul (js_div (Fin (real (length records))) timeWindowMinutes) (Fin 100))"

definition getAggregateField :: "ResolvedQuery \<Rightarrow> string" where
  "getAggregateField resolvedQuery =
     (case q_property resolvedQuery of
        Some (Telemetry telemetryProperty) \<Rightarrow> field_of telemetryProperty
      | _ \<Rightarrow> ''speedMph'')"

fun extractValues :: "TelemetryRecord list \<Rightarrow> string \<Rightarrow> jsnum list" where
  "extractValues [] fieldName = []"
| "extractValues (record # telemetry) fieldName =
     (case props record fieldName of
        JNum n \<Rightarrow>
          if n \<noteq> NaN
          then (if fieldName = ''speedMph'' then js_mul n mph_to_kmh else n)
               # extractValues telemetry fieldName
          else extractValues telemetry fieldName
      | _ \<Rightarrow> extractValues telemetry fieldName)"

definition js_sum :: "jsnum list \<Rightarrow> jsnum" where
  "js_sum vs = foldl js_add (Fin 0) vs"

text \<open>The \<^verbatim>\<open>switch\<close> on the operation, over the extracted values.\<close>

definition aggregate :: "Operation \<Rightarrow> jsnum list \<Rightarrow> jsnum" where
  "aggregate operation vs =
     (case operation of
        OpAverage \<Rightarrow> js_div (js_sum vs) (Fin (real (length vs)))
      | OpMax \<Rightarrow> Math_max vs
      | OpMin \<Rightarrow> Math_min vs
      | OpSum \<Rightarrow> js_sum vs)"

text \<open>
  The condition of the route utilization branch; \<open>hasTelemetryService\<close> says whether
  the optional constructor argument was given. \<^verbatim>\<open>resolvedQuery.timeWindow\<close> is a
  required member and an object, so its test in the condition holds.
\<close>

definition is_route_utilization :: "bool \<Rightarrow> ResolvedQuery \<Rightarrow> bool" where
  "is_route_utilization hasTelemetryService resolvedQuery =
     (q_operation resolvedQuery = Some OpAverage \<and> q_property resolvedQuery = None \<and>
      given (filters_sourcePath resolvedQuery) \<and> hasTelemetryService)"

text \<open>\<^verbatim>\<open>AggregateExecutor.execute\<close>\<close>

definition aggregate_execute ::
  "bool \<Rightarrow> ResolvedQuery \<Rightarrow> TelemetryRecord list \<Rightarrow> ExecError + QueryResult" where
  "aggregate_execute hasTelemetryService resolvedQuery telemetry =
     (case q_operation resolvedQuery of
        None \<Rightarrow> Inl RequiresOperation
      | Some operation \<Rightarrow>
          if telemetry = [] then
            Inr \<lparr>r_value = JNum (Fin 0),
                 r_units = aggregate_units (q_property resolvedQuery),
                 r_metadata = Some \<lparr>recordCount = Some 0, timeWindow = None\<rparr>\<rparr>
          else if is_route_utilization hasTelemetryService resolvedQuery then
            Inr \<lparr>r_value = JNum (calculateRouteUtilization telemetry
                                    (minutes (q_timeWindow resolvedQuery))),
                 r_units = ''%'',
                 r_metadata = Some \<lparr>recordCount = Some (length telemetry),
                                    timeWindow = Some (q_timeWindow resolvedQuery)\<rparr>\<rparr>
          else
            (let fieldName = getAggregateField resolvedQuery;
                 vs = extractValues telemetry fieldName
             in if vs = [] then
                  Inr \<lparr>r_value = JNum (Fin 0),
                       r_units = aggregate_units (q_property resolvedQuery),
                       r_metadata = Some \<lparr>recordCount = Some (length telemetry),
                                          timeWindow = None\<rparr>\<rparr>
                else
                  (let result = aggregate operation vs
                   in Inr \<lparr>r_value = JNum result,
                          r_units = aggregate_units (q_property resolvedQuery),
                          r_metadata = Some \<lparr>recordCount = Some (length telemetry),
                                             timeWindow = Some (q_timeWindow resolvedQuery)\<rparr>\<rparr>)))"

section \<open>Regular expressions\<close>

text \<open>
  The backtracking matcher of JavaScript regular expressions, for the operators the
  resolver's pattern uses: a literal (compared case-insensitively, as under the flag
  \<^verbatim>\<open>i\<close>), greedy \<^verbatim>\<open>C*\<close> and \<^verbatim>\<open>C+\<close> over a character class, sequence, ordered
  alternative, the greedy option \<^verbatim>\<open>r?\<close> and a capture group. The continuation receives
  the rest of the input and the captures so far; the first success in priority order
  is the match.
\<close>

datatype rx =
    Lit string
  | Star "char \<Rightarrow> bool"
  | Plus "char \<Rightarrow> bool"
  | Seq rx rx
  | Alt rx rx
  | Opt rx
  | Grp nat rx

type_synonym captures = "nat \<Rightarrow> string option"

text \<open>Try the repetition counts \<open>n\<close>, \<open>n - 1\<close>, ..., \<open>lo\<close> in this order.\<close>

fun try_down :: "(nat \<Rightarrow> 'a option) \<Rightarrow> nat \<Rightarrow> nat \<Rightarrow> 'a option" where
  "try_down f lo 0 = (if lo = 0 then f 0 else None)"
| "try_down f lo (Suc i) =
     (if Suc i < lo then None
      else (case f (Suc i) of Some r \<Rightarrow> Some r | None \<Rightarrow> try_down f lo i))"

primrec rx_match ::
  "rx \<Rightarrow> string \<Rightarrow> captures \<Rightarrow> (string \<Rightarrow> captures \<Rightarrow> captures option) \<Rightarrow> captures option" where
  "rx_match (Lit w) s c k =
     (if toLowerCase (take (length w) s) = toLowerCase w then k (drop (length w) s) c else None)"
| "rx_match (Star C) s c k =
     try_down (\<lambda>i. k (drop i s) c) 0 (length (takeWhile C s))"
| "rx_match (Plus C) s c k =
     try_down (\<lambda>i. k (drop i s) c) 1 (length (takeWhile C s))"
| "rx_match (Seq a b) s c k = rx_match a s c (\<lambda>s' c'. rx_match b s' c' k)"
| "rx_match (Alt a b) s c k =
     (case rx_match a s c k of Some r \<Rightarrow> Some r | None \<Rightarrow> rx_match b s c k)"
| "rx_match (Opt a) s c k =
     (case rx_match a s c k of Some r \<Rightarrow> Some r | None \<Rightarrow> k s c)"
| "rx_match (Grp i a) s c k =
     rx_match a s c (\<lambda>s' c'. k s' (c'(i \<mapsto> take (length s - length s') s)))"

text \<open>A pattern anchored by \<^verbatim>\<open>^\<close> and \<^verbatim>\<open>$\<close>: the match starts at the first character
  and the continuation accepts the end of the input only.\<close>

definition match_anchored :: "rx \<Rightarrow> string \<Rightarrow> captures option" where
  "match_anchored r s = rx_match r s (\<lambda>i. None) (\<lambda>s' c. if s' = [] then Some c else None)"

definition is_alpha_i :: "char \<Rightarrow> bool" where
  "is_alpha_i c = is_lower_az (lower_char c)"

text \<open>
  \<^verbatim>\<open>/^(haul\s*)?(truck|loader|route|stockpile|mill|layout)\s*(cat\s*)?(\d+|[a-z]+)(\s*(\d+))?$/i\<close>
\<close>

definition typePattern :: rx where
  "typePattern =
     Seq (Opt (Grp 1 (Seq (Lit ''haul'') (Star is_space))))
    (Seq (Grp 2 (Alt (Lit ''truck'') (Alt (Lit ''loader'') (Alt (Lit ''route'')
                (Alt (Lit ''stockpile'') (Alt (Lit ''mill'') (Lit ''layout'')))))))
    (Seq (Star is_space)
    (Seq (Opt (Grp 3 (Seq (Lit ''cat'') (Star is_space))))
    (Seq (Grp 4 (Alt (Plus is_digit) (Plus is_alpha_i)))
         (Opt (Grp 5 (Seq (Star is_space) (Grp 6 (Plus is_digit)))))))))"

section \<open>String to number\<close>

text \<open>
  Whether \<^verbatim>\<open>Number(p)\<close> is NaN: it is not for the empty or blank string and for a
  \<open>StringNumericLiteral\<close>: an optionally signed decimal literal or \<^verbatim>\<open>Infinity\<close>, or an
  unsigned binary, octal or hexadecimal integer literal.
\<close>

definition is_hex_digit :: "char \<Rightarrow> bool" where
  "is_hex_digit c =
     (let n = (of_char c :: nat) in
      (48 \<le> n \<and> n \<le> 57) \<or> (65 \<le> n \<and> n \<le> 70) \<or> (97 \<le> n \<and> n \<le> 102))"

definition is_octal_digit :: "char \<Rightarrow> bool" where
  "is_octal_digit c = (let n = (of_char c :: nat) in 48 \<le> n \<and> n \<le> 55)"

definition is_binary_digit :: "char \<Rightarrow> bool" where
  "is_binary_digit c = (c = CHR ''0'' \<or> c = CHR ''1'')"

definition digits1 :: "(char \<Rightarrow> bool) \<Rightarrow> string \<Rightarrow> bool" where
  "digits1 C s = (s \<noteq> [] \<and> list_all C s)"

fun non_decimal_literal :: "string \<Rightarrow> bool" where
  "non_decimal_literal (z # x # ds) =
     (z = CHR ''0'' \<and>
      ((x = CHR ''x'' \<or> x = CHR ''X'') \<and> digits1 is_hex_digit ds \<or>
       (x = CHR ''o'' \<or> x = CHR ''O'') \<and> digits1 is_octal_digit ds \<or>
       (x = CHR ''b'' \<or> x = CHR ''B'') \<and> digits1 is_binary_digit ds))"
| "non_decimal_literal s = False"

fun exponent_part_opt :: "string \<Rightarrow> bool" where
  "exponent_part_opt [] = True"
| "exponent_part_opt (e # r) =
     ((e = CHR ''e'' \<or> e = CHR ''E'') \<and>
      (case r of
         [] \<Rightarrow> False
       | sg # ds \<Rightarrow> if sg = CHR ''+'' \<or> sg = CHR ''-'' then digits1 is_digit ds
                    else digits1 is_digit (sg # ds)))"

definition unsigned_decimal_literal :: "string \<Rightarrow> bool" where
  "unsigned_decimal_literal u =
     (u = ''Infinity'' \<or>
      (let ip = takeWhile is_digit u; r1 = dropWhile is_digit u in
       case r1 of
         d # r \<Rightarrow>
           if d = CHR ''.''
           then (ip \<noteq> [] \<or> takeWhile is_digit r \<noteq> []) \<and>
                exponent_part_opt (dropWhile is_digit r)
           else ip \<noteq> [] \<and> exponent_part_opt r1
       | [] \<Rightarrow> ip \<noteq> []))"

definition decimal_literal :: "string \<Rightarrow> bool" where
  "decimal_literal t =
     (case t of
        [] \<Rightarrow> False
      | sg # u \<Rightarrow> if sg = CHR ''+'' \<or> sg = CHR ''-'' then unsigned_decimal_literal u
                  else unsigned_decimal_literal t)"

definition Number_isNaN :: "string \<Rightarrow> bool" where
  "Number_isNaN p =
     (let t = trim p in \<not> (t = [] \<or> non_decimal_literal t \<or> decimal_literal t))"

text \<open>\<^verbatim>\<open>p.match(/[a-z]{2,}/i)\<close> finds two adjacent letters.\<close>

fun has_two_letters :: "string \<Rightarrow> bool" where
  "has_two_letters (a # b # r) = (is_alpha_i a \<and> is_alpha_i b \<or> has_two_letters (b # r))"
| "has_two_letters s = False"

section \<open>Entity resolver\<close>

datatype DomainError =
    ENTITY_NOT_FOUND string
  | PROPERTY_NOT_FOUND string
  | PROPERTY_NOT_EDITABLE string

text \<open>\<^verbatim>\<open>reference.toLowerCase().replace(/\s+/g, "_").trim()\<close>\<close>

definition normalize_reference :: "string \<Rightarrow> string" where
  "normalize_reference reference =
     trim (replace_runs is_space ''_'' False (toLowerCase reference))"

text \<open>\<^verbatim>\<open>normalized.split(/[_\s]+/)\<close>\<close>

definition split_parts :: "string \<Rightarrow> string list" where
  "split_parts normalized = split_runs is_sep False [] normalized"

text \<open>Case-insensitive match: the first entity whose lower-cased id is the
  normalized reference.\<close>

definition case_insensitive_match :: "string \<Rightarrow> Entity list \<Rightarrow> Entity option" where
  "case_insensitive_match normalized allEntities =
     find (\<lambda>e. toLowerCase (e_id e) = normalized) allEntities"

text \<open>Partial match: the first entity whose lower-cased id includes every part.\<close>

definition partial_match :: "string \<Rightarrow> Entity list \<Rightarrow> Entity option" where
  "partial_match normalized allEntities =
     (let parts = filter (\<lambda>p. length p > 0) (split_parts normalized) in
      if length parts > 0 then
        find (\<lambda>e. let entityIdLower = toLowerCase (e_id e)
                   in list_all (\<lambda>part. str_includes entityIdLower part) parts) allEntities
      else None)"

definition typeName_of :: "string \<Rightarrow> string" where
  "typeName_of type =
     (if type = ''truck'' then ''HaulTruck''
      else if type = ''loader'' then ''Loader''
      else if type = ''route'' then ''HaulRoute''
      else if type = ''stockpile'' then ''Stockpile''
      else if type = ''mill'' then ''Mill''
      else if type = ''layout'' then ''MineLayout''
      else map upper_char (take 1 type) @ drop 1 type)"

text \<open>Match by type and identifier. Groups 2 and 4 take part in every match of the
  pattern; group 6 is the sub-identifier.\<close>

definition type_identifier_match :: "string \<Rightarrow> DTDLModel \<Rightarrow> Entity option" where
  "type_identifier_match normalized model =
     (case match_anchored typePattern normalized of
        None \<Rightarrow> None
      | Some typeMatch \<Rightarrow>
          (case (typeMatch 2, typeMatch 4) of
             (Some type, Some identifier) \<Rightarrow>
               (let typeName = typeName_of type;
                    typeEntities = getEntitiesByType model typeName
                in case typeMatch 6 of
                     Some subIdentifier \<Rightarrow>
                       if subIdentifier \<noteq> [] then
                         find (\<lambda>e. let idLower = toLowerCase (e_id e)
                                    in str_includes idLower (toLowerCase identifier) \<and>
                                       str_includes idLower (toLowerCase subIdentifier))
                              typeEntities
                       else
                         find (\<lambda>e. str_includes (toLowerCase (e_id e)) (toLowerCase identifier))
                              typeEntities
                   | None \<Rightarrow>
                       find (\<lambda>e. str_includes (toLowerCase (e_id e)) (toLowerCase identifier))
                            typeEntities)
           | _ \<Rightarrow> None))"

text \<open>Fuzzy match: at least \<open>min 2 (length keyParts)\<close> key parts occur in the id.\<close>

definition is_key_part :: "string \<Rightarrow> bool" where
  "is_key_part p = (length p > 1 \<and> \<not> Number_isNaN p \<or> has_two_letters p)"

definition fuzzy_match :: "string \<Rightarrow> Entity list \<Rightarrow> Entity option" where
  "fuzzy_match normalized allEntities =
     (let keyParts = filter is_key_part (split_parts normalized) in
      if length keyParts > 0 then
        find (\<lambda>e. let entityIdLower = toLowerCase (e_id e);
                       matches = length (filter (\<lambda>part. str_includes entityIdLower part) keyParts)
                   in matches \<ge> min 2 (length keyParts)) allEntities
      else None)"

text \<open>\<^verbatim>\<open>EntityResolver.resolve\<close>: each stage returns its entity at once; the next one
  runs when it found none.\<close>

definition resolve :: "string \<Rightarrow> DTDLModel \<Rightarrow> DomainError + Entity" where
  "resolve reference model =
     (let normalized = normalize_reference reference;
          allEntities = getAllEntities model
      in case getEntity model reference of Some entity \<Rightarrow> Inr entity | None \<Rightarrow>
        (case getEntity model normalized of Some entity \<Rightarrow> Inr entity | None \<Rightarrow>
        (case case_insensitive_match normalized allEntities of Some entity \<Rightarrow> Inr entity | None \<Rightarrow>
        (case partial_match normalized allEntities of Some entity \<Rightarrow> Inr entity | None \<Rightarrow>
        (case type_identifier_match normalized model of Some entity \<Rightarrow> Inr entity | None \<Rightarrow>
        (case fuzzy_match normalized allEntities of Some entity \<Rightarrow> Inr entity | None \<Rightarrow>
         Inl (ENTITY_NOT_FOUND reference)))))))"

record RelationshipFilter =
  rf_name :: string
  rf_targetId :: string

record BulkUpdateFilter =
  bf_type :: "string option"
  bf_relationship :: "RelationshipFilter option"

definition type_filter_ok :: "BulkUpdateFilter option \<Rightarrow> Entity \<Rightarrow> bool" where
  "type_filter_ok flt e =
     (case flt of
        None \<Rightarrow> True
      | Some f \<Rightarrow> (case bf_type f of
                     None \<Rightarrow> True
                   | Some t \<Rightarrow> if t \<noteq> [] then e_type e = Some t else True))"

definition relationship_filter_ok :: "BulkUpdateFilter option \<Rightarrow> Entity \<Rightarrow> bool" where
  "relationship_filter_ok flt e =
     (case flt of
        None \<Rightarrow> True
      | Some f \<Rightarrow> (case bf_relationship f of
                     None \<Rightarrow> True
                   | Some r \<Rightarrow> (case e_relationships e of
                                  None \<Rightarrow> False
                                | Some rels \<Rightarrow> rels (rf_name r) = Some (rf_targetId r))))"

definition resolveBulk ::
  "string \<Rightarrow> DTDLModel \<Rightarrow> BulkUpdateFilter option \<Rightarrow> DomainError + Entity list" where
  "resolveBulk reference model flt =
     (if str_includes (toLowerCase reference) ''all'' then
        Inr (filter (relationship_filter_ok flt) (filter (type_filter_ok flt) (getAllEntities model)))
      else (case resolve reference model of
              Inl err \<Rightarrow> Inl err
            | Inr entity \<Rightarrow> Inr [entity]))"

section \<open>Property resolver\<close>

text \<open>The tables \<^verbatim>\<open>TELEMETRY_FIELDS\<close> (type and units of a field) and
  \<^verbatim>\<open>PROPERTY_NAME_VARIATIONS\<close>, in the order of their keys; a lookup reads the
  table's own keys only.\<close>

definition TELEMETRY_FIELDS :: "(string \<times> string \<times> string option) list" where
  "TELEMETRY_FIELDS =
     [(''status'', ''string'', None),
      (''truckId'', ''string'', None),
      (''haulPathId'', ''string'', None),
      (''haulPhase'', ''string'', None),
      (''speedMph'', ''number'', Some ''mph''),
      (''posX'', ''number'', None),
      (''posY'', ''number'', None),
      (''posZ'', ''number'', None),
      (''headingDeg'', ''number'', Some ''degrees''),
      (''payload'', ''number'', Some ''tonnes''),
      (''engineTemp'', ''number'', Some degree_F),
      (''fuelLevel'', ''number'', Some ''%''),
      (''fuelConsumptionRate'', ''number'', None),
      (''brakePedalPos'', ''number'', Some ''%''),
      (''throttlePos'', ''number'', Some ''%''),
      (''vibrationLevel'', ''number'', None),
      (''tirePressureFL'', ''number'', Some ''psi''),
      (''tirePressureFR'', ''number'', Some ''psi''),
      (''tirePressureRLO'', ''number'', Some ''psi''),
      (''tirePressureRLI'', ''number'', Some ''psi''),
      (''tirePressureRRO'', ''number'', Some ''psi''),
      (''tirePressureRRI'', ''number'', Some ''psi'')]"

definition PROPERTY_NAME_VARIATIONS :: "(string \<times> string list) list" where
  "PROPERTY_NAME_VARIATIONS =
     [(''haulPathId'', [''haul path id'', ''haul path'', ''path id'', ''pathid'', ''route id'',
                        ''routeid'', ''current path'']),
      (''haulPhase'', [''haul phase'', ''phase'', ''current phase'']),
      (''speedMph'', [''speed'', ''current speed'', ''speed mph'', ''velocity'']),
      (''maxSpeedKph'', [''speed limit'', ''max speed'', ''maximum speed'', ''maxspeed'']),
      (''status'', [''status'', ''current status'', ''state'', ''equipment status'']),
      (''engineTemp'', [''engine temperature'', ''engine temp'', ''temperature'', ''enginetemp'']),
      (''fuelLevel'', [''fuel level'', ''fuel'', ''fuellevel'', ''fuel percentage'']),
      (''fuelConsumptionRate'', [''fuel consumption'', ''fuel consumption rate'', ''fuel rate'']),
      (''posX'', [''position x'', ''x position'', ''x coordinate'', ''pos x'']),
      (''posY'', [''position y'', ''y position'', ''y coordinate'', ''pos y'']),
      (''posZ'', [''position z'', ''z position'', ''z coordinate'', ''pos z'', ''altitude'']),
      (''headingDeg'', [''heading'', ''direction'', ''heading degrees'', ''headingdeg'']),
      (''payload'', [''payload'', ''load'', ''weight'', ''tonnage'']),
      (''focusSnapDistanceMeters'', [''focus snap distance'', ''snap distance'',
                                     ''focus distance'', ''focussnapdistancemeters'']),
      (''builderCategory'', [''builder category'', ''category'', ''buildercategory'']),
      (''builderIsPhysical'', [''builder is physical'', ''is physical'', ''physical'',
                               ''builderisphysical''])]"

definition is_name_sep :: "char \<Rightarrow> bool" where
  "is_name_sep c = (c = CHR ''_'' \<or> is_space c \<or> c = CHR ''-'')"

text \<open>\<^verbatim>\<open>name.toLowerCase().trim().replace(/[_\s-]+/g, "").replace(/\s+/g, "")\<close>\<close>

definition normalizePropertyName :: "string \<Rightarrow> string" where
  "normalizePropertyName name =
     replace_runs is_space [] False
       (replace_runs is_name_sep [] False (trim (toLowerCase name)))"

definition variation_matches :: "string list \<Rightarrow> string \<Rightarrow> bool" where
  "variation_matches variations normalizedName =
     list_ex (\<lambda>v. normalizePropertyName v = normalizedName) variations"

definition createDTDLPropertyInfo :: "ContentItem \<Rightarrow> DTDLPropertyInfo" where
  "createDTDLPropertyInfo dtdlProperty =
     (let schema = c_schema dtdlProperty;
          propType =
            (case schema of
               JStr sc \<Rightarrow>
                 if sc = ''double'' \<or> sc = ''float'' \<or> sc = ''int'' then ''number''
                 else if sc = ''boolean'' then ''boolean''
                 else if sc = ''Array'' then ''array''
                 else if sc = ''Object'' then ''object''
                 else ''string''
             | JObj kv \<Rightarrow>
                 if map_of kv ''@type'' = Some (JStr ''Object'') then ''object''
                 else if map_of kv ''@type'' = Some (JStr ''Array'') then ''array''
                 else ''string''
             | _ \<Rightarrow> ''string'')
      in \<lparr>d_name = c_name dtdlProperty,
          d_displayName = c_displayName dtdlProperty,
          d_type = propType,
          d_schema = schema,
          d_value = (if c_value dtdlProperty \<noteq> JUndefined then c_value dtdlProperty
                     else c_initialValue dtdlProperty),
          d_initialValue = c_initialValue dtdlProperty,
          d_writable = (c_writable dtdlProperty \<noteq> JBool False),
          d_dtdlProperty = dtdlProperty\<rparr>)"

fun findPropertyInDTDL :: "ContentItem list \<Rightarrow> string \<Rightarrow> DTDLPropertyInfo option" where
  "findPropertyInDTDL [] normalizedName = None"
| "findPropertyInDTDL (content # contents) normalizedName =
     (if c_type content = JStr ''Property'' then
        (let propName = c_name content;
             variations = (case map_of PROPERTY_NAME_VARIATIONS propName of
                             Some vs \<Rightarrow> vs | None \<Rightarrow> [])
         in if normalizePropertyName propName = normalizedName
              then Some (createDTDLPropertyInfo content)
            else if variation_matches variations normalizedName
              then Some (createDTDLPropertyInfo content)
            else if str_includes (toLowerCase propName) normalizedName \<or>
                    str_includes normalizedName (toLowerCase propName)
              then Some (createDTDLPropertyInfo content)
            else findPropertyInDTDL contents normalizedName)
      else findPropertyInDTDL contents normalizedName)"

definition telemetry_info :: "string \<Rightarrow> string \<times> string option \<Rightarrow> TelemetryPropertyInfo" where
  "telemetry_info fieldName field =
     \<lparr>t_name = fieldName, t_type = fst field, t_units = snd field,
      t_telemetryField = fieldName\<rparr>"

fun find_by_variation ::
  "(string \<times> string list) list \<Rightarrow> string \<Rightarrow> TelemetryPropertyInfo option" where
  "find_by_variation [] normalizedName = None"
| "find_by_variation ((fieldName, variations) # entries) normalizedName =
     (if variation_matches variations normalizedName then
        (case map_of TELEMETRY_FIELDS fieldName of
           Some field \<Rightarrow> Some (telemetry_info fieldName field)
         | None \<Rightarrow> find_by_variation entries normalizedName)
      else find_by_variation entries normalizedName)"

fun find_by_part ::
  "(string \<times> string \<times> string option) list \<Rightarrow> string \<Rightarrow> TelemetryPropertyInfo option" where
  "find_by_part [] normalizedName = None"
| "find_by_part ((fieldName, field) # entries) normalizedName =
     (if str_includes (toLowerCase fieldName) normalizedName \<or>
         str_includes normalizedName (toLowerCase fieldName)
      then Some (telemetry_info fieldName field)
      else find_by_part entries normalizedName)"

definition findPropertyInTelemetry :: "string \<Rightarrow> TelemetryPropertyInfo option" where
  "findPropertyInTelemetry normalizedName =
     (case map_of TELEMETRY_FIELDS normalizedName of
        Some field \<Rightarrow> Some (telemetry_info normalizedName field)
      | None \<Rightarrow>
          (case find_by_variation PROPERTY_NAME_VARIATIONS normalizedName of
             Some t \<Rightarrow> Some t
           | None \<Rightarrow> find_by_part TELEMETRY_FIELDS normalizedName))"

text \<open>
  \<^verbatim>\<open>PropertyResolver.resolveProperty\<close>. A failure is \<open>None\<close>: its message and its
  suggestions, which only go into the text of the caller's error, are not represented.
\<close>

definition resolveProperty :: "Entity \<Rightarrow> string \<Rightarrow> PropertyInfo option" where
  "resolveProperty entity naturalLanguageName =
     (let normalized = normalizePropertyName naturalLanguageName in
      case findPropertyInDTDL (e_contents entity) normalized of
        Some d \<Rightarrow> Some (DTDL d)
      | None \<Rightarrow> map_option Telemetry (findPropertyInTelemetry normalized))"

section \<open>Schema resolver: commands\<close>

datatype Action = A_set | A_update | A_change

datatype Scope = Single | Bulk

record CommandIntent =
  ci_action :: Action
  ci_targetEntity :: string
  ci_property :: string
  ci_value :: jsval
  ci_scope :: "Scope option"
  ci_filter :: "BulkUpdateFilter option"

record ResolvedCommand =
  rc_action :: Action
  rc_targetEntities :: "Entity list"
  rc_property :: PropertyInfo
  rc_value :: jsval
  rc_scope :: Scope
  rc_filters :: "BulkUpdateFilter option"

definition resolveCommand :: "DTDLModel \<Rightarrow> CommandIntent \<Rightarrow> DomainError + ResolvedCommand" where
  "resolveCommand dtdlModel intent =
     (case resolveBulk (ci_targetEntity intent) dtdlModel (ci_filter intent) of
        Inl err \<Rightarrow> Inl err
      | Inr entities \<Rightarrow>
          (case entities of
             [] \<Rightarrow> Inl (ENTITY_NOT_FOUND (ci_targetEntity intent))
           | first # others \<Rightarrow>
               (case resolveProperty first (ci_property intent) of
                  None \<Rightarrow> Inl (PROPERTY_NOT_FOUND (ci_property intent))
                | Some property \<Rightarrow>
                    if source property \<noteq> Src_dtdl
                    then Inl (PROPERTY_NOT_EDITABLE (ci_property intent))
                    else Inr \<lparr>rc_action = ci_action intent,
                              rc_targetEntities = entities,
                              rc_property = property,
                              rc_value = ci_value intent,
                              rc_scope = (case ci_scope intent of
                                            Some sc \<Rightarrow> sc
                                          | None \<Rightarrow> if length entities > 1 then Bulk else Single),
                              rc_filters = ci_filter intent\<rparr>)))"

section \<open>Update validator\<close>

text \<open>A row of the constraint store, as the repository returns it.\<close>

record PropertyConstraint =
  k_entityType :: string
  k_property :: string
  k_minValue :: "jsnum option"
  k_maxValue :: "jsnum option"
  k_readOnly :: bool
  k_editable :: bool
  k_allowedValues :: "jsval list option"

datatype ValidationError =
    DoesNotExist string string
  | IsReadOnly string
  | IsNotEditable string
  | MustBeNumber string string
  | MustBeString string string
  | MustBeBoolean string string
  | BelowMinimum jsnum jsnum
  | AboveMaximum jsnum jsnum
  | NotInAllowedValues jsval "jsval list"

datatype ValidationResult = Valid | Invalid ValidationError

text \<open>\<^verbatim>\<open>a ?? b\<close> on optional members.\<close>

definition opt_coalesce :: "'a option \<Rightarrow> 'a option \<Rightarrow> 'a option" where
  "opt_coalesce a b = (case a of Some x \<Rightarrow> Some x | None \<Rightarrow> b)"

definition def_min :: "PropertyValue \<Rightarrow> jsnum option" where
  "def_min propertyDef = (case pv_constraints propertyDef of None \<Rightarrow> None | Some c \<Rightarrow> pc_min c)"

definition def_max :: "PropertyValue \<Rightarrow> jsnum option" where
  "def_max propertyDef = (case pv_constraints propertyDef of None \<Rightarrow> None | Some c \<Rightarrow> pc_max c)"

definition def_allowedValues :: "PropertyValue \<Rightarrow> jsval list option" where
  "def_allowedValues propertyDef =
     (case pv_constraints propertyDef of None \<Rightarrow> None | Some c \<Rightarrow> pc_allowedValues c)"

definition def_readOnly :: "PropertyValue \<Rightarrow> bool" where
  "def_readOnly propertyDef =
     (case pv_constraints propertyDef of None \<Rightarrow> False | Some c \<Rightarrow> pc_readOnly c = Some True)"

definition check_allowed ::
  "PropertyConstraint option \<Rightarrow> PropertyValue \<Rightarrow> jsval \<Rightarrow> ValidationResult" where
  "check_allowed constraint propertyDef newValue =
     (case opt_coalesce (case constraint of None \<Rightarrow> None | Some k \<Rightarrow> k_allowedValues k)
                        (def_allowedValues propertyDef) of
        Some allowedValues \<Rightarrow>
          if \<not> array_includes allowedValues newValue
          then Invalid (NotInAllowedValues newValue allowedValues) else Valid
      | None \<Rightarrow> Valid)"

definition check_range ::
  "PropertyConstraint option \<Rightarrow> PropertyValue \<Rightarrow> jsval \<Rightarrow> ValidationResult" where
  "check_range constraint propertyDef newValue =
     (case newValue of
        JNum numValue \<Rightarrow>
          (let minValue = opt_coalesce (case constraint of None \<Rightarrow> None | Some k \<Rightarrow> k_minValue k)
                                       (def_min propertyDef);
               maxValue = opt_coalesce (case constraint of None \<Rightarrow> None | Some k \<Rightarrow> k_maxValue k)
                                       (def_max propertyDef)
           in case minValue of
                Some mn \<Rightarrow>
                  if js_lt numValue mn then Invalid (BelowMinimum numValue mn)
                  else (case maxValue of
                          Some mx \<Rightarrow> if js_gt numValue mx then Invalid (AboveMaximum numValue mx)
                                     else check_allowed constraint propertyDef newValue
                        | None \<Rightarrow> check_allowed constraint propertyDef newValue)
              | None \<Rightarrow>
                  (case maxValue of
                     Some mx \<Rightarrow> if js_gt numValue mx then Invalid (AboveMaximum numValue mx)
                                else check_allowed constraint propertyDef newValue
                   | None \<Rightarrow> check_allowed constraint propertyDef newValue))
      | _ \<Rightarrow> check_allowed constraint propertyDef newValue)"

text \<open>\<^verbatim>\<open>entity.type || "Unknown"\<close>\<close>

definition type_or_unknown :: "Entity \<Rightarrow> string" where
  "type_or_unknown entity =
     (case e_type entity of
        Some t \<Rightarrow> if t \<noteq> [] then t else ''Unknown''
      | None \<Rightarrow> ''Unknown'')"

text \<open>
  A function of \<^verbatim>\<open>Object.prototype\<close>, or \<^verbatim>\<open>Object.prototype\<close> itself, read as the
  definition of a property: it has none of the members \<^verbatim>\<open>type\<close>, \<^verbatim>\<open>editable\<close>,
  \<^verbatim>\<open>constraints\<close>. The absent type is written as the empty string, which like
  \<^verbatim>\<open>undefined\<close> is none of the type names that the validator compares it with; the
  validator does not read \<^verbatim>\<open>value\<close>.
\<close>

definition shared_object :: PropertyValue where
  "shared_object =
     \<lparr>pv_value = JUndefined, pv_type = [], pv_editable = None, pv_constraints = None\<rparr>"

text \<open>
  \<^verbatim>\<open>UpdateValidator.validate\<close>; \<open>getConstraint\<close> is the constraint repository the
  validator was constructed with.
\<close>

definition validate ::
  "(string \<Rightarrow> string \<Rightarrow> PropertyConstraint option) \<Rightarrow> Entity \<Rightarrow> string \<Rightarrow> jsval
   \<Rightarrow> ValidationResult" where
  "validate getConstraint entity property newValue =
     (case properties_lookup entity property of
        None \<Rightarrow> Invalid (DoesNotExist property (e_id entity))
      | Some member \<Rightarrow>
          (let propertyDef = (case member of Cached pv \<Rightarrow> pv | _ \<Rightarrow> shared_object);
               entityType = type_or_unknown entity;
               constraint = getConstraint entityType property;
               expectedType = pv_type propertyDef
           in if def_readOnly propertyDef then Invalid (IsReadOnly property)
              else if (case constraint of
                         Some k \<Rightarrow> k_readOnly k \<or> \<not> k_editable k
                       | None \<Rightarrow> pv_editable propertyDef = Some False)
                then Invalid (IsNotEditable property)
              else if expectedType = ''number'' \<and> typeof newValue \<noteq> ''number''
                then Invalid (MustBeNumber property (typeof newValue))
              else if expectedType = ''string'' \<and> typeof newValue \<noteq> ''string''
                then Invalid (MustBeString property (typeof newValue))
              else if expectedType = ''boolean'' \<and> typeof newValue \<noteq> ''boolean''
                then Invalid (MustBeBoolean property (typeof newValue))
              else if expectedType = ''number''
                then check_range constraint propertyDef newValue
              else check_allowed constraint propertyDef newValue))"

section \<open>Notions used to state the properties\<close>

text \<open>A record lies on path \<open>p\<close>.\<close>

definition on_path :: "string \<Rightarrow> TelemetryRecord \<Rightarrow> bool" where
  "on_path p r = (haulPathId r = JStr p)"

text \<open>The results of the six stages of the resolver, in the order it tries them, and
  the first of a list of results that is a hit.\<close>

definition stages :: "string \<Rightarrow> DTDLModel \<Rightarrow> Entity option list" where
  "stages reference model =
     (let normalized = normalize_reference reference; allEntities = getAllEntities model in
      [getEntity model reference,
       getEntity model normalized,
       case_insensitive_match normalized allEntities,
       partial_match normalized allEntities,
       type_identifier_match normalized model,
       fuzzy_match normalized allEntities])"

fun first_hit :: "'a option list \<Rightarrow> 'a option" where
  "first_hit [] = None"
| "first_hit (None # rs) = first_hit rs"
| "first_hit (Some x # rs) = Some x"

text \<open>
  What it is for an entry of the model, a key with its entity, to match a reference at
  stage \<open>k\<close> of the six stages, numbered from 0: the key is the reference; the key is the
  normalized reference; the lower-cased id is the normalized reference; the normalized
  reference has parts and the lower-cased id includes every one; the normalized reference
  has the form of a type with an identifier, the entity is of that type and its
  lower-cased id includes the identifier, and the sub-identifier if there is one; the
  normalized reference has key parts and the lower-cased id includes two of them, or the
  only one.
\<close>

definition stage_hit :: "string \<Rightarrow> nat \<Rightarrow> string \<times> Entity \<Rightarrow> bool" where
  "stage_hit reference k entry =
     (let normalized = normalize_reference reference;
          idLower = toLowerCase (e_id (snd entry))
      in if k = 0 then fst entry = reference
         else if k = 1 then fst entry = normalized
         else if k = 2 then idLower = normalized
         else if k = 3 then
           (let parts = filter (\<lambda>p. p \<noteq> []) (split_parts normalized)
            in parts \<noteq> [] \<and> list_all (\<lambda>part. str_includes idLower part) parts)
         else if k = 4 then
           (case match_anchored typePattern normalized of
              None \<Rightarrow> False
            | Some typeMatch \<Rightarrow>
                (case (typeMatch 2, typeMatch 4) of
                   (Some type, Some identifier) \<Rightarrow>
                     e_type (snd entry) = Some (typeName_of type) \<and>
                     str_includes idLower (toLowerCase identifier) \<and>
                     (case typeMatch 6 of
                        Some subIdentifier \<Rightarrow>
                          subIdentifier = [] \<or> str_includes idLower (toLowerCase subIdentifier)
                      | None \<Rightarrow> True)
                 | _ \<Rightarrow> False))
         else if k = 5 then
           (let keyParts = filter is_key_part (split_parts normalized)
            in keyParts \<noteq> [] \<and>
               min 2 (length keyParts)
                 \<le> length (filter (\<lambda>part. str_includes idLower part) keyParts))
         else False)"


text \<open>
  The editability checks of the validator pass; and the bounds a numeric value is held
  against: the bound of the constraint row when the row gives one, else the bound the
  property itself declares.
\<close>

definition editable_ok :: "PropertyConstraint option \<Rightarrow> PropertyValue \<Rightarrow> bool" where
  "editable_ok constraint propertyDef =
     (\<not> def_readOnly propertyDef \<and>
      (case constraint of
         Some k \<Rightarrow> \<not> k_readOnly k \<and> k_editable k
       | None \<Rightarrow> pv_editable propertyDef \<noteq> Some False))"

definition effective_min :: "PropertyConstraint option \<Rightarrow> PropertyValue \<Rightarrow> jsnum option" where
  "effective_min constraint propertyDef =
     (case constraint of
        Some k \<Rightarrow> (case k_minValue k of Some mn \<Rightarrow> Some mn | None \<Rightarrow> def_min propertyDef)
      | None \<Rightarrow> def_min propertyDef)"

definition effective_max :: "PropertyConstraint option \<Rightarrow> PropertyValue \<Rightarrow> jsnum option" where
  "effective_max constraint propertyDef =
     (case constraint of
        Some k \<Rightarrow> (case k_maxValue k of Some mx \<Rightarrow> Some mx | None \<Rightarrow> def_max propertyDef)
      | None \<Rightarrow> def_max propertyDef)"

section \<open>Example data\<close>

text \<open>A haul truck twin with the property \<^verbatim>\<open>focusSnapDistanceMeters\<close> (current value
  200, declared initial value 100), a constraint store with the one row
  \<open>min = 0\<close>, \<open>max = 100\<close> for it, a query, a command and telemetry records.\<close>

definition focus_item :: ContentItem where
  "focus_item = \<lparr>c_type = JStr ''Property'', c_name = ''focusSnapDistanceMeters'',
     c_displayName = JUndefined, c_schema = JStr ''double'', c_value = JNum (Fin 200),
     c_initialValue = JNum (Fin 100), c_writable = JBool True\<rparr>"

definition focus_cached :: PropertyValue where
  "focus_cached = \<lparr>pv_value = JNum (Fin 200), pv_type = ''number'', pv_editable = Some True,
     pv_constraints = None\<rparr>"

definition truck :: "string \<Rightarrow> Entity" where
  "truck i = \<lparr>e_id = i, e_displayName = Some ''Haul Truck'', e_contents = [focus_item],
     e_type = Some ''HaulTruck'',
     e_properties = Some [''focusSnapDistanceMeters'' \<mapsto> focus_cached],
     e_relationships = Some Map.empty\<rparr>"

text \<open>The realm in which no function of \<^verbatim>\<open>Object.prototype\<close> has been given a member
  \<^verbatim>\<open>value\<close>.\<close>

definition fresh_realm :: Realm where
  "fresh_realm = Map.empty"

definition focus_row :: PropertyConstraint where
  "focus_row = \<lparr>k_entityType = ''HaulTruck'', k_property = ''focusSnapDistanceMeters'',
     k_minValue = Some (Fin 0), k_maxValue = Some (Fin 100), k_readOnly = False,
     k_editable = True, k_allowedValues = None\<rparr>"

definition focus_store :: "string \<Rightarrow> string \<Rightarrow> PropertyConstraint option" where
  "focus_store entityType property =
     (if entityType = ''HaulTruck'' \<and> property = ''focusSnapDistanceMeters''
      then Some focus_row else None)"

definition no_store :: "string \<Rightarrow> string \<Rightarrow> PropertyConstraint option" where
  "no_store entityType property = None"

text \<open>The same truck with the bounds declared by the property itself.\<close>

definition bounded_cached :: PropertyValue where
  "bounded_cached = focus_cached\<lparr>pv_constraints :=
     Some \<lparr>pc_min = Some (Fin 0), pc_max = Some (Fin 100), pc_allowedValues = None,
           pc_readOnly = None\<rparr>\<rparr>"

definition bounded_truck :: "string \<Rightarrow> Entity" where
  "bounded_truck i = (truck i)\<lparr>e_properties :=
     Some [''focusSnapDistanceMeters'' \<mapsto> bounded_cached]\<rparr>"

definition hour :: TimeWindow where
  "hour = \<lparr>minutes = Fin 60, startTime = None, endTime = None\<rparr>"

definition plain_query :: ResolvedQuery where
  "plain_query = \<lparr>q_intent = I_get_property, q_targetEntity = truck ''Haul_Truck_CAT_777_2'',
     q_property = None, q_operation = None, q_timeWindow = hour, q_filters = None\<rparr>"

definition paths :: "string option \<Rightarrow> string option \<Rightarrow> Filters" where
  "paths s d = \<lparr>f_sourcePath = s, f_destinationPath = d, f_relationshipName = None,
     f_relationshipTarget = None\<rparr>"

definition speed_field :: TelemetryPropertyInfo where
  "speed_field = \<lparr>t_name = ''speedMph'', t_type = ''number'',
     t_units = Some ''mph'', t_telemetryField = ''speedMph''\<rparr>"

definition speed_query :: ResolvedQuery where
  "speed_query = plain_query\<lparr>q_property := Some (Telemetry speed_field)\<rparr>"

definition aggregate_query :: "Operation option \<Rightarrow> PropertyInfo option \<Rightarrow> ResolvedQuery" where
  "aggregate_query operation property =
     plain_query\<lparr>q_intent := I_aggregate, q_operation := operation, q_property := property\<rparr>"

definition utilization_query :: ResolvedQuery where
  "utilization_query =
     plain_query\<lparr>q_intent := I_aggregate, q_operation := Some OpAverage,
                  q_filters := Some (paths (Some ''path_1'') None)\<rparr>"

definition focus_query :: ResolvedQuery where
  "focus_query = plain_query\<lparr>q_property := Some (DTDL (createDTDLPropertyInfo focus_item))\<rparr>"

definition set_focus :: "string \<Rightarrow> string \<Rightarrow> CommandIntent" where
  "set_focus target phrase = \<lparr>ci_action = A_set, ci_targetEntity = target, ci_property = phrase,
     ci_value = JNum (Fin 300), ci_scope = None, ci_filter = None\<rparr>"

definition count_query :: "string option \<Rightarrow> string option \<Rightarrow> ResolvedQuery" where
  "count_query s d = plain_query\<lparr>q_intent := I_count, q_filters := Some (paths s d)\<rparr>"

definition two_trucks :: DTDLModel where
  "two_trucks = newDTDLModel [truck ''Haul_Truck_CAT_777_2'', truck ''Haul_Truck_CAT_777_3'']"

text \<open>What a result says: its value and its record count.\<close>

definition said :: "ExecError + QueryResult \<Rightarrow> ExecError + jsval \<times> nat option option" where
  "said res = map_sum id (\<lambda>r. (r_value r, map_option recordCount (r_metadata r))) res"

definition record_on :: "string \<Rightarrow> TelemetryRecord" where
  "record_on p =
     \<lparr>timestamp = 0, props = (\<lambda>f. if f = ''haulPathId'' then JStr p else JUndefined)\<rparr>"

definition record_speed :: "int \<Rightarrow> real \<Rightarrow> TelemetryRecord" where
  "record_speed t v =
     \<lparr>timestamp = t, props = (\<lambda>f. if f = ''speedMph'' then JNum (Fin v) else JUndefined)\<rparr>"

definition seven_records :: "TelemetryRecord list" where
  "seven_records = map record_on [''A'', ''A'', ''B'', ''A'', ''B'', ''B'', ''C'']"

section \<open>Numbers\<close>

lemma floor_log2_eq:
  assumes "2 powi e \<le> a" "a < 2 powi (e + 1)"
  shows "\<lfloor>log 2 a\<rfloor> = e"
proof -
  have pos: "0 < a" using assms(1) zero_less_power_int[of "2::real" e] by linarith
  have p: "(2::real) powr (of_int k) = 2 powi k" for k
    by (simp add: powr_real_of_int' power_int_def)
  have "\<lfloor>log 2 a\<rfloor> = e \<longleftrightarrow> 2 powr (of_int e) \<le> a \<and> a < 2 powr (of_int (e + 1))"
    using pos by (subst floor_log_eq_powr_iff) simp_all
  then show ?thesis
    using assms unfolding p by simp
qed

lemma binary_exponent_bounds:
  assumes "0 < a"
  shows "2 powi (binary_exponent a) \<le> a \<and> a < 2 powi (binary_exponent a + 1)"
proof (cases "1 \<le> a")
  case True
  define n where "n = nat \<lfloor>a\<rfloor>"
  define L where "L = floorlog 2 n"
  have n: "0 < n" "real n \<le> a" "a < real n + 1"
    using True by (simp_all add: n_def)
  from floorlog_bounds[of n 2] n(1) have b: "2 ^ (L - 1) \<le> n" "n < 2 ^ L"
    by (simp_all add: L_def)
  have L: "0 < L" using n(1) by (simp add: L_def floorlog_def)
  have e: "binary_exponent a = int L - 1" using True by (simp add: binary_exponent_def n_def L_def)
  have p1: "(2::real) powi (int L - 1) = 2 ^ (L - 1)"
    using L by (simp add: power_int_def nat_diff_distrib' Suc_leI)
  have p2: "(2::real) powi (int L - 1 + 1) = 2 ^ L" by simp
  have "(2::real) ^ (L - 1) \<le> real n" using b(1) by (metis of_nat_le_iff of_nat_numeral of_nat_power)
  then have lo: "(2::real) ^ (L - 1) \<le> a" using n(2) by linarith
  have "n + 1 \<le> 2 ^ L" using b(2) by simp
  then have "real (n + 1) \<le> 2 ^ L" by (metis of_nat_le_iff of_nat_numeral of_nat_power)
  then have hi: "a < 2 ^ L" using n(3) by simp
  show ?thesis unfolding e p1 p2 using lo hi by simp
next
  case False
  define y where "y = 1 / a"
  define m where "m = nat (\<lceil>y\<rceil> - 1)"
  define L where "L = floorlog 2 m"
  have y: "1 < y" using False assms by (simp add: y_def)
  then have c: "2 \<le> \<lceil>y\<rceil>" by linarith
  have m: "0 < m" "real m < y" "y \<le> real m + 1"
    using c by (simp_all add: m_def) linarith+
  from floorlog_bounds[of m 2] m(1) have b: "2 ^ (L - 1) \<le> m" "m < 2 ^ L"
    by (simp_all add: L_def)
  have L: "0 < L" using m(1) by (simp add: L_def floorlog_def)
  have e: "binary_exponent a = - int L"
    using False by (simp add: binary_exponent_def m_def L_def y_def)
  have p1: "(2::real) powi (- int L) = 1 / 2 ^ L"
    by (simp add: power_int_minus_divide)
  have p2: "(2::real) powi (- int L + 1) = 1 / 2 ^ (L - 1)"
  proof -
    have "- int L + 1 = - int (L - 1)" using L by simp
    then show ?thesis by (simp only: power_int_minus_divide power_int_of_nat)
  qed
  have "(2::real) ^ (L - 1) \<le> real m" using b(1) by (metis of_nat_le_iff of_nat_numeral of_nat_power)
  then have ylo: "(2::real) ^ (L - 1) < y" using m(2) by linarith
  have "m + 1 \<le> 2 ^ L" using b(2) by simp
  then have "real (m + 1) \<le> 2 ^ L" by (metis of_nat_le_iff of_nat_numeral of_nat_power)
  then have yhi: "y \<le> 2 ^ L" using m(3) by simp
  have a: "a = 1 / y" using assms by (simp add: y_def)
  have ypos: "0 < y" using y by simp
  have lo: "1 / 2 ^ L \<le> a" unfolding a using yhi ypos by (simp add: frac_le)
  have hi: "a < 1 / 2 ^ (L - 1)" unfolding a using ylo by (simp add: frac_less2)
  show ?thesis unfolding e p1 p2 using lo hi by simp
qed

lemma binary_exponent_log: "0 < a \<Longrightarrow> binary_exponent a = \<lfloor>log 2 a\<rfloor>"
  using binary_exponent_bounds[of a] floor_log2_eq[of "binary_exponent a" a] by simp

lemma binary_exponent_unique:
  assumes "2 powi e \<le> a" "a < 2 powi (e + 1)"
  shows "binary_exponent a = e"
proof -
  have "0 < a" using assms(1) zero_less_power_int[of "2::real" e] by linarith
  then show ?thesis
    using floor_log2_eq[OF assms] by (simp add: binary_exponent_log)
qed

text \<open>Rounding a number whose binary exponent is known.\<close>

lemma binary64_eval:
  assumes "2 powi e \<le> \<bar>x\<bar>" "\<bar>x\<bar> < 2 powi (e + 1)" "- 1022 \<le> e"
    and "r = round_half_even (x / 2 powi (e - 52))"
  shows "binary64 x =
     (if (2::real) ^ 1024 \<le> \<bar>of_int r * 2 powi (e - 52)\<bar> then (if 0 < x then PInf else NInf)
      else Fin (of_int r * 2 powi (e - 52)))"
proof -
  have "0 < \<bar>x\<bar>" using assms(1) zero_less_power_int[of "2::real" e] by linarith
  then have nz: "x \<noteq> 0" by simp
  have "binary_exponent \<bar>x\<bar> = e" using assms(1,2) by (rule binary_exponent_unique)
  then have "max (binary_exponent \<bar>x\<bar>) (- 1022) = e" using assms(3) by simp
  then show ?thesis
    using nz assms(4) by (simp add: binary64_def Let_def)
qed













lemma binary64_sixtieth: "binary64 (1 / 60) = Fin (4803839602528529 / 2 ^ 58)"
  using binary64_eval[where x = "1 / 60" and e = "- 6" and r = 4803839602528529]
  by (simp add: round_half_even_def power_int_minus)

lemma binary64_utilization:
  "binary64 (4803839602528529 / 2 ^ 58 * 100) = Fin (7505999378950827 / 2 ^ 52)"
  using binary64_eval[where x = "4803839602528529 / 2 ^ 58 * 100" and e = 0
      and r = 7505999378950827]
  by (simp add: round_half_even_def power_int_minus)

section \<open>Trip counting\<close>

lemma trip_step_cases:
  "trip_step s d (c, f) x =
     (if on_path s x then (c, True)
      else if on_path d x \<and> f then (Suc c, False) else (c, f))"
  by (simp add: trip_step_def on_path_def Let_def)

text \<open>The loop invariant of the source-to-destination count: after a prefix of the
  records, the counter is the number of destination records met with the flag set, and
  the flag says that a source record was met with no destination record after it.\<close>

lemma between_invariant:
  assumes "s \<noteq> d"
  shows "foldl (trip_step s d) (0, False) xs =
     (card {j. j < length xs \<and> on_path d (xs ! j) \<and>
               (\<exists>i<j. on_path s (xs ! i) \<and> (\<forall>k. i < k \<and> k < j \<longrightarrow> \<not> on_path d (xs ! k)))},
      (\<exists>i<length xs. on_path s (xs ! i) \<and>
                      (\<forall>k. i < k \<and> k < length xs \<longrightarrow> \<not> on_path d (xs ! k))))"
proof (induction xs rule: rev_induct)
  case Nil
  show ?case by simp
next
  case (snoc x xs)
  let ?n = "length xs"
  let ?flag = "\<lambda>ys j. \<exists>i<j. on_path s (ys ! i) \<and> (\<forall>k. i < k \<and> k < j \<longrightarrow> \<not> on_path d (ys ! k))"
  let ?T = "\<lambda>ys. {j. j < length ys \<and> on_path d (ys ! j) \<and> ?flag ys j}"
  have flag_old: "?flag (xs @ [x]) j = ?flag xs j" if "j \<le> ?n" for j
    using that by (auto simp: nth_append)
  have T_new: "?T (xs @ [x]) = ?T xs \<union> (if on_path d x \<and> ?flag xs ?n then {?n} else {})"
  proof -
    have "?T (xs @ [x]) = {j. j < ?n \<and> on_path d ((xs @ [x]) ! j) \<and> ?flag (xs @ [x]) j}
            \<union> {j. j = ?n \<and> on_path d ((xs @ [x]) ! j) \<and> ?flag (xs @ [x]) j}"
      by (auto simp: less_Suc_eq)
    also have "{j. j < ?n \<and> on_path d ((xs @ [x]) ! j) \<and> ?flag (xs @ [x]) j} = ?T xs"
      using flag_old by (auto simp: nth_append)
    also have "{j. j = ?n \<and> on_path d ((xs @ [x]) ! j) \<and> ?flag (xs @ [x]) j}
                = (if on_path d x \<and> ?flag xs ?n then {?n} else {})"
      using flag_old[of ?n] by auto
    finally show ?thesis .
  qed
  have F_new: "?flag (xs @ [x]) (Suc ?n) = (on_path s x \<or> (\<not> on_path d x \<and> ?flag xs ?n))"
  proof
    assume "?flag (xs @ [x]) (Suc ?n)"
    then obtain i where i: "i < Suc ?n" "on_path s ((xs @ [x]) ! i)"
       "\<forall>k. i < k \<and> k < Suc ?n \<longrightarrow> \<not> on_path d ((xs @ [x]) ! k)" by blast
    show "on_path s x \<or> (\<not> on_path d x \<and> ?flag xs ?n)"
    proof (cases "i = ?n")
      case True with i show ?thesis by simp
    next
      case False
      with i have lt: "i < ?n" by simp
      from i lt have "\<not> on_path d x" by (metis lessI nth_append_length)
      moreover have "?flag xs ?n"
        using i lt by (intro exI[of _ i]) (auto simp: nth_append split: if_splits)
      ultimately show ?thesis by simp
    qed
  next
    assume "on_path s x \<or> (\<not> on_path d x \<and> ?flag xs ?n)"
    then show "?flag (xs @ [x]) (Suc ?n)"
    proof
      assume "on_path s x"
      then show ?thesis by (intro exI[of _ ?n]) auto
    next
      assume a: "\<not> on_path d x \<and> ?flag xs ?n"
      then obtain i where i: "i < ?n" "on_path s (xs ! i)"
        "\<forall>k. i < k \<and> k < ?n \<longrightarrow> \<not> on_path d (xs ! k)" by blast
      show ?thesis
        using a i by (intro exI[of _ i]) (auto simp: nth_append less_Suc_eq)
    qed
  qed
  define T where "T = ?T xs"
  define c where "c = card T"
  define f where "f = ?flag xs ?n"
  define c' where "c' = card (?T (xs @ [x]))"
  define f' where "f' = ?flag (xs @ [x]) (Suc ?n)"
  have fin: "finite T" unfolding T_def by simp
  have notin: "?n \<notin> T" unfolding T_def by simp
  have "?T (xs @ [x]) = T \<union> (if on_path d x \<and> f then {?n} else {})"
    unfolding T_def f_def by (rule T_new)
  then have c'_eq: "c' = (if on_path d x \<and> f then Suc c else c)"
    unfolding c'_def c_def using fin notin by simp
  have f'_eq: "f' = (on_path s x \<or> (\<not> on_path d x \<and> f))"
    unfolding f'_def f_def by (rule F_new)
  from assms have excl: "on_path s x \<Longrightarrow> \<not> on_path d x"
    by (auto simp: on_path_def)
  have "foldl (trip_step s d) (0, False) (xs @ [x]) = trip_step s d (c, f) x"
    using snoc.IH by (simp add: c_def f_def T_def)
  also have "\<dots> = (c', f')"
    using excl by (auto simp: trip_step_cases c'_eq f'_eq)
  finally show ?case by (simp add: c'_def f'_def)
qed

lemma path_step_cases:
  "path_step p (c, w) x = (if on_path p x \<and> \<not> w then Suc c else c, on_path p x)"
  by (simp add: path_step_def on_path_def Let_def)

text \<open>The loop invariant of the entry count: the counter is the number of records on
  the path whose predecessor is not, and the flag says that the last record is on it.\<close>

lemma path_invariant:
  "foldl (path_step p) (0, False) xs =
     (card {j. j < length xs \<and> on_path p (xs ! j) \<and> (j = 0 \<or> \<not> on_path p (xs ! (j - 1)))},
      xs \<noteq> [] \<and> on_path p (last xs))"
proof (induction xs rule: rev_induct)
  case Nil
  show ?case by simp
next
  case (snoc x xs)
  let ?n = "length xs"
  let ?E = "\<lambda>ys. {j. j < length ys \<and> on_path p (ys ! j) \<and> (j = 0 \<or> \<not> on_path p (ys ! (j - 1)))}"
  define E where "E = ?E xs"
  define w where "w = (xs \<noteq> [] \<and> on_path p (last xs))"
  have fin: "finite E" unfolding E_def by simp
  have notin: "?n \<notin> E" unfolding E_def by simp
  have prev: "(?n = 0 \<or> \<not> on_path p ((xs @ [x]) ! (?n - 1))) = (\<not> w)"
    unfolding w_def by (cases xs rule: rev_cases) (auto simp: nth_append)
  have "?E (xs @ [x]) = {j. j < ?n \<and> on_path p ((xs @ [x]) ! j) \<and>
                             (j = 0 \<or> \<not> on_path p ((xs @ [x]) ! (j - 1)))}
          \<union> {j. j = ?n \<and> on_path p ((xs @ [x]) ! j) \<and>
                  (j = 0 \<or> \<not> on_path p ((xs @ [x]) ! (j - 1)))}"
    by (auto simp: less_Suc_eq)
  also have "{j. j < ?n \<and> on_path p ((xs @ [x]) ! j) \<and>
                 (j = 0 \<or> \<not> on_path p ((xs @ [x]) ! (j - 1)))} = E"
    unfolding E_def by (auto simp: nth_append)
  also have "{j. j = ?n \<and> on_path p ((xs @ [x]) ! j) \<and>
                 (j = 0 \<or> \<not> on_path p ((xs @ [x]) ! (j - 1)))}
              = (if on_path p x \<and> \<not> w then {?n} else {})"
    using prev by auto
  finally have "card (?E (xs @ [x])) = (if on_path p x \<and> \<not> w then Suc (card E) else card E)"
    using fin notin by simp
  moreover have "foldl (path_step p) (0, False) (xs @ [x]) = path_step p (card E, w) x"
    using snoc.IH by (simp add: E_def w_def)
  ultimately show ?case by (simp add: path_step_cases)
qed

lemma haulPathId_record_on: "haulPathId (record_on p) = JStr p"
  by (simp add: record_on_def haulPathId_def)

lemma on_path_record_on: "on_path q (record_on p) = (p = q)"
  by (simp add: on_path_def haulPathId_record_on)

text \<open>Both counts read the path ids of the records only.\<close>

lemma trip_fold_cong:
  "map haulPathId xs = map haulPathId ys \<Longrightarrow>
   foldl (trip_step s d) st xs = foldl (trip_step s d) st ys"
proof (induction xs arbitrary: ys st)
  case Nil
  then show ?case by simp
next
  case (Cons x xs)
  then obtain y ys' where ys: "ys = y # ys'" by (cases ys) auto
  with Cons.prems have h: "haulPathId x = haulPathId y" "map haulPathId xs = map haulPathId ys'"
    by simp_all
  have "trip_step s d st x = trip_step s d st y"
    using h(1) by (simp add: trip_step_def)
  with Cons.IH[OF h(2)] ys show ?case by simp
qed

lemma path_fold_cong:
  "map haulPathId xs = map haulPathId ys \<Longrightarrow>
   foldl (path_step p) st xs = foldl (path_step p) st ys"
proof (induction xs arbitrary: ys st)
  case Nil
  then show ?case by simp
next
  case (Cons x xs)
  then obtain y ys' where ys: "ys = y # ys'" by (cases ys) auto
  with Cons.prems have h: "haulPathId x = haulPathId y" "map haulPathId xs = map haulPathId ys'"
    by simp_all
  have "path_step p st x = path_step p st y"
    using h(1) by (simp add: path_step_def)
  with Cons.IH[OF h(2)] ys show ?case by simp
qed

lemma seven_paths:
  "map haulPathId seven_records = map JStr [''A'', ''A'', ''B'', ''A'', ''B'', ''B'', ''C'']"
  by (simp add: seven_records_def haulPathId_record_on)

lemma example_between:
  assumes "map haulPathId telemetry = map JStr [''A'', ''A'', ''B'', ''A'', ''B'', ''B'', ''C'']"
  shows "countTripsBetweenPaths telemetry ''A'' ''B'' = 2"
proof -
  have "map haulPathId telemetry = map haulPathId seven_records"
    using assms by (simp add: seven_paths)
  from trip_fold_cong[OF this] show ?thesis
    by (simp add: countTripsBetweenPaths_def seven_records_def trip_step_cases on_path_record_on)
qed

lemma example_on_path:
  assumes "map haulPathId telemetry = map JStr [''A'', ''A'', ''B'', ''A'', ''B'', ''B'', ''C'']"
  shows "countTripsOnPath telemetry ''A'' = 2"
proof -
  have "map haulPathId telemetry = map haulPathId seven_records"
    using assms by (simp add: seven_paths)
  from path_fold_cong[OF this] show ?thesis
    by (simp add: countTripsOnPath_def seven_records_def path_step_cases on_path_record_on)
qed

lemma count_execute_between:
  assumes "filters_sourcePath q = Some s" "filters_destinationPath q = Some d"
    "s \<noteq> []" "d \<noteq> []" "s \<noteq> d"
  shows "r_value (count_execute q telemetry) = of_count (countTripsBetweenPaths telemetry s d)"
  using assms by (simp add: count_execute_def countTripsBetweenPaths_def)

lemma count_execute_source_only:
  assumes "filters_sourcePath q = Some s" "s \<noteq> []"
    "filters_destinationPath q = None \<or> filters_destinationPath q = Some []"
  shows "r_value (count_execute q telemetry) = of_count (countTripsOnPath telemetry s)"
  using assms by (auto simp add: count_execute_def countTripsOnPath_def)

lemma of_count_inject: "of_count a = of_count b \<Longrightarrow> a = b"
  by (simp add: of_count_def)

lemma count_query_filters:
  "filters_sourcePath (count_query s d) = s" "filters_destinationPath (count_query s d) = d"
  "q_timeWindow (count_query s d) = hour"
  by (simp_all add: count_query_def filters_sourcePath_def filters_destinationPath_def
      paths_def plain_query_def)

text \<open>
  C2. For every sequence of records, the count executor with a source and a different
  destination path, both given, counts the records on the destination that are met
  while the flag "on source" is set, that is, after a record on the source with no
  record on the destination in between; with the source only, it counts the records on
  that path whose predecessor is not on it. For the path sequence A, A, B, A, B, B, C
  both counts are 2.
\<close>

theorem count_executor_trips:
  assumes "filters_sourcePath q = Some s" and "s \<noteq> []"
  shows
    "(filters_destinationPath q = Some d \<and> d \<noteq> [] \<and> s \<noteq> d \<longrightarrow>
        r_value (count_execute q telemetry) =
          of_count (card {j. j < length telemetry \<and> on_path d (telemetry ! j) \<and>
             (\<exists>i<j. on_path s (telemetry ! i) \<and>
                     (\<forall>k. i < k \<and> k < j \<longrightarrow> \<not> on_path d (telemetry ! k)))}))
   \<and> (filters_destinationPath q = None \<longrightarrow>
        r_value (count_execute q telemetry) =
          of_count (card {j. j < length telemetry \<and> on_path s (telemetry ! j) \<and>
             (j = 0 \<or> \<not> on_path s (telemetry ! (j - 1)))}))
   \<and> (map haulPathId telemetry = map JStr [''A'', ''A'', ''B'', ''A'', ''B'', ''B'', ''C''] \<and>
      s = ''A'' \<longrightarrow>
        (filters_destinationPath q = Some ''B'' \<longrightarrow>
           r_value (count_execute q telemetry) = of_count 2) \<and>
        (filters_destinationPath q = None \<longrightarrow>
           r_value (count_execute q telemetry) = of_count 2))"
proof (intro conjI impI)
  assume h: "filters_destinationPath q = Some d \<and> d \<noteq> [] \<and> s \<noteq> d"
  then have "r_value (count_execute q telemetry) = of_count (countTripsBetweenPaths telemetry s d)"
    using assms count_execute_between by blast
  also have "countTripsBetweenPaths telemetry s d =
      card {j. j < length telemetry \<and> on_path d (telemetry ! j) \<and>
             (\<exists>i<j. on_path s (telemetry ! i) \<and>
                     (\<forall>k. i < k \<and> k < j \<longrightarrow> \<not> on_path d (telemetry ! k)))}"
    using h by (simp add: countTripsBetweenPaths_def between_invariant)
  finally show "r_value (count_execute q telemetry) =
          of_count (card {j. j < length telemetry \<and> on_path d (telemetry ! j) \<and>
             (\<exists>i<j. on_path s (telemetry ! i) \<and>
                     (\<forall>k. i < k \<and> k < j \<longrightarrow> \<not> on_path d (telemetry ! k)))})" .
next
  assume h: "filters_destinationPath q = None"
  then have "r_value (count_execute q telemetry) = of_count (countTripsOnPath telemetry s)"
    using assms count_execute_source_only by blast
  then show "r_value (count_execute q telemetry) =
          of_count (card {j. j < length telemetry \<and> on_path s (telemetry ! j) \<and>
             (j = 0 \<or> \<not> on_path s (telemetry ! (j - 1)))})"
    by (simp add: countTripsOnPath_def path_invariant)
next
  assume ex: "map haulPathId telemetry = map JStr [''A'', ''A'', ''B'', ''A'', ''B'', ''B'', ''C'']
              \<and> s = ''A''"
    and d: "filters_destinationPath q = Some ''B''"
  have "r_value (count_execute q telemetry) = of_count (countTripsBetweenPaths telemetry ''A'' ''B'')"
    using assms ex d by (intro count_execute_between) auto
  then show "r_value (count_execute q telemetry) = of_count 2"
    using ex example_between by simp
next
  assume ex: "map haulPathId telemetry = map JStr [''A'', ''A'', ''B'', ''A'', ''B'', ''B'', ''C'']
              \<and> s = ''A''"
    and d: "filters_destinationPath q = None"
  have "r_value (count_execute q telemetry) = of_count (countTripsOnPath telemetry ''A'')"
    using assms ex d by (intro count_execute_source_only) auto
  then show "r_value (count_execute q telemetry) = of_count 2"
    using ex example_on_path by simp
qed

theorem count_executor_trips_witness:
  "filters_sourcePath (count_query (Some ''A'') (Some ''B'')) = Some ''A'' \<and>
   filters_destinationPath (count_query (Some ''A'') (Some ''B'')) = Some ''B'' \<and>
   ''A'' \<noteq> ''B'' \<and>
   r_value (count_execute (count_query (Some ''A'') (Some ''B'')) seven_records) = of_count 2 \<and>
   card {j. j < length seven_records \<and> on_path ''B'' (seven_records ! j) \<and>
            (\<exists>i<j. on_path ''A'' (seven_records ! i) \<and>
                    (\<forall>k. i < k \<and> k < j \<longrightarrow> \<not> on_path ''B'' (seven_records ! k)))} = 2 \<and>
   filters_sourcePath (count_query (Some ''A'') None) = Some ''A'' \<and>
   filters_destinationPath (count_query (Some ''A'') None) = None \<and>
   r_value (count_execute (count_query (Some ''A'') None) seven_records) = of_count 2 \<and>
   card {j. j < length seven_records \<and> on_path ''A'' (seven_records ! j) \<and>
            (j = 0 \<or> \<not> on_path ''A'' (seven_records ! (j - 1)))} = 2"
proof -
  have ne: "''A'' \<noteq> ([] :: string)" "''B'' \<noteq> ([] :: string)" "''A'' \<noteq> ''B''" by simp_all
  note ab = count_executor_trips[where q = "count_query (Some ''A'') (Some ''B'')" and s = "''A''"
      and d = "''B''" and telemetry = seven_records, OF count_query_filters(1) ne(1)]
  note a = count_executor_trips[where q = "count_query (Some ''A'') None" and s = "''A''"
      and d = "''B''" and telemetry = seven_records, OF count_query_filters(1) ne(1)]
  have h_ab: "filters_destinationPath (count_query (Some ''A'') (Some ''B'')) = Some ''B'' \<and>
              ''B'' \<noteq> [] \<and> ''A'' \<noteq> ''B''"
    by (simp add: count_query_filters)
  have h_a: "filters_destinationPath (count_query (Some ''A'') None) = None"
    by (simp add: count_query_filters)
  have h_ex: "map haulPathId seven_records = map JStr [''A'', ''A'', ''B'', ''A'', ''B'', ''B'', ''C'']
              \<and> ''A'' = ''A''"
    using seven_paths by simp
  have d_ab: "filters_destinationPath (count_query (Some ''A'') (Some ''B'')) = Some ''B''"
    by (simp add: count_query_filters)
  have v_ab: "r_value (count_execute (count_query (Some ''A'') (Some ''B'')) seven_records)
                = of_count 2"
    by (rule mp[OF conjunct1[OF mp[OF conjunct2[OF conjunct2[OF ab]] h_ex]] d_ab])
  have c_ab: "r_value (count_execute (count_query (Some ''A'') (Some ''B'')) seven_records)
                = of_count (card {j. j < length seven_records \<and> on_path ''B'' (seven_records ! j) \<and>
            (\<exists>i<j. on_path ''A'' (seven_records ! i) \<and>
                    (\<forall>k. i < k \<and> k < j \<longrightarrow> \<not> on_path ''B'' (seven_records ! k)))})"
    by (rule mp[OF conjunct1[OF ab] h_ab])
  have v_a: "r_value (count_execute (count_query (Some ''A'') None) seven_records) = of_count 2"
    by (rule mp[OF conjunct2[OF mp[OF conjunct2[OF conjunct2[OF a]] h_ex]] h_a])
  have c_a: "r_value (count_execute (count_query (Some ''A'') None) seven_records)
               = of_count (card {j. j < length seven_records \<and> on_path ''A'' (seven_records ! j) \<and>
            (j = 0 \<or> \<not> on_path ''A'' (seven_records ! (j - 1)))})"
    by (rule mp[OF conjunct1[OF conjunct2[OF a]] h_a])
  have k_ab: "card {j. j < length seven_records \<and> on_path ''B'' (seven_records ! j) \<and>
            (\<exists>i<j. on_path ''A'' (seven_records ! i) \<and>
                    (\<forall>k. i < k \<and> k < j \<longrightarrow> \<not> on_path ''B'' (seven_records ! k)))} = 2"
    by (rule of_count_inject[OF trans[OF sym[OF c_ab] v_ab]])
  have k_a: "card {j. j < length seven_records \<and> on_path ''A'' (seven_records ! j) \<and>
            (j = 0 \<or> \<not> on_path ''A'' (seven_records ! (j - 1)))} = 2"
    by (rule of_count_inject[OF trans[OF sym[OF c_a] v_a]])
  have s_ab: "filters_sourcePath (count_query (Some ''A'') (Some ''B'')) = Some ''A''"
    and s_a: "filters_sourcePath (count_query (Some ''A'') None) = Some ''A''"
    by (simp_all add: count_query_filters)
  show ?thesis
    by (intro conjI) (rule s_ab d_ab ne(3) v_ab k_ab s_a h_a v_a k_a)+
qed

text \<open>
  C9. When the source and the destination path given to the count executor are equal,
  the result is that of the same query with the source path only: the entries into that
  path are counted, not the trips from source to destination.
\<close>

theorem same_path_counts_entries:
  assumes "filters_sourcePath q = Some s" and "filters_destinationPath q = Some s"
  shows "(filters_sourcePath q' = Some s \<and> filters_destinationPath q' = None \<and>
          q_timeWindow q' = q_timeWindow q \<longrightarrow>
            count_execute q telemetry = count_execute q' telemetry)
       \<and> (s \<noteq> [] \<longrightarrow> r_value (count_execute q telemetry) = of_count (countTripsOnPath telemetry s))"
  using assms by (auto simp: count_execute_def countTripsOnPath_def)

theorem same_path_counts_entries_witness:
  "filters_sourcePath (count_query (Some ''A'') (Some ''A'')) = Some ''A'' \<and>
   filters_destinationPath (count_query (Some ''A'') (Some ''A'')) = Some ''A'' \<and>
   filters_sourcePath (count_query (Some ''A'') None) = Some ''A'' \<and>
   filters_destinationPath (count_query (Some ''A'') None) = None \<and>
   count_execute (count_query (Some ''A'') (Some ''A'')) seven_records
     = count_execute (count_query (Some ''A'') None) seven_records \<and>
   r_value (count_execute (count_query (Some ''A'') (Some ''A'')) seven_records) = of_count 2 \<and>
   countTripsBetweenPaths seven_records ''A'' ''A'' = 0"
proof -
  note t = same_path_counts_entries[where q = "count_query (Some ''A'') (Some ''A'')"
      and s = "''A''" and q' = "count_query (Some ''A'') None" and telemetry = seven_records,
      OF count_query_filters(1) count_query_filters(2)]
  have z: "countTripsBetweenPaths seven_records ''A'' ''A'' = 0"
    by (simp add: countTripsBetweenPaths_def seven_records_def trip_step_cases on_path_record_on)
  have ne: "''A'' \<noteq> ([] :: string)" by simp
  have q': "filters_sourcePath (count_query (Some ''A'') None) = Some ''A'' \<and>
            filters_destinationPath (count_query (Some ''A'') None) = None \<and>
            q_timeWindow (count_query (Some ''A'') None)
              = q_timeWindow (count_query (Some ''A'') (Some ''A''))"
    by (simp add: count_query_filters)
  from t q' have e: "count_execute (count_query (Some ''A'') (Some ''A'')) seven_records
     = count_execute (count_query (Some ''A'') None) seven_records" by blast
  from t ne have "r_value (count_execute (count_query (Some ''A'') (Some ''A'')) seven_records)
     = of_count (countTripsOnPath seven_records ''A'')" by blast
  then have v: "r_value (count_execute (count_query (Some ''A'') (Some ''A'')) seven_records)
     = of_count 2"
    using example_on_path[OF seven_paths] by simp
  show ?thesis
    using e v z q' by (intro conjI) (simp_all only: count_query_filters)
qed


section \<open>Model mutation\<close>

lemma map_of_map_set_same: "map_of (map_set k v m) k = Some v"
  by (induction m) auto

lemma map_of_map_set_other: "k' \<noteq> k \<Longrightarrow> map_of (map_set k v m) k' = map_of m k'"
  by (induction m) auto

lemma find_update_first:
  "(\<And>x. P x \<Longrightarrow> P (f x)) \<Longrightarrow> find P (update_first P f xs) = map_option f (find P xs)"
  by (induction xs) auto

lemma update_first_map:
  "(\<And>x. g (f x) = g x) \<Longrightarrow> map g (update_first P f xs) = map g xs"
  by (induction xs) auto

lemma is_property_named_value:
  "is_property_named p (c\<lparr>c_value := v\<rparr>) = is_property_named p c"
  by (simp add: is_property_named_def)

lemma one_truck_model: "newDTDLModel [truck i] = [(i, truck i)]"
  by (simp add: newDTDLModel_def addEntity_def truck_def)

lemma map_set_same: "map_of m k = Some v \<Longrightarrow> map_set k v m = m"
  by (induction m) (auto split: if_splits)

lemma cached_lookup:
  "cached_property e property = Some pv \<Longrightarrow> properties_lookup e property = Some (Cached pv)"
  by (auto simp: cached_property_def properties_lookup_def split: option.splits)

lemma truck_focus:
  "cached_property (truck i) ''focusSnapDistanceMeters'' = Some focus_cached"
  "find (is_property_named ''focusSnapDistanceMeters'') (e_contents (truck i)) = Some focus_item"
  by (simp_all add: cached_property_def truck_def is_property_named_def focus_item_def)

text \<open>
  C4. For an entity of the model whose cache holds the named property and whose content
  list holds a Property item of that name, the update succeeds, reports the old and the
  new value, and afterwards the cache entry and the first such item both hold the new
  value; the item's initial value, every initial value in the list and every other
  entity are as before.
\<close>

theorem update_writes_cache_and_contents:
  assumes ent: "getEntity m entityId = Some e"
    and cache: "cached_property e property = Some pv"
    and item: "find (is_property_named property) (e_contents e) = Some item"
  shows "\<exists>r m' e'.
      updateEntityProperty realm m entityId property v = (r, False, m', None) \<and>
      u_success r \<and> u_oldValue r = pv_value pv \<and> u_newValue r = v \<and>
      getEntity m' entityId = Some e' \<and>
      cached_property e' property = Some (pv\<lparr>pv_value := v\<rparr>) \<and>
      find (is_property_named property) (e_contents e') = Some (item\<lparr>c_value := v\<rparr>) \<and>
      c_initialValue (item\<lparr>c_value := v\<rparr>) = c_initialValue item \<and>
      map c_initialValue (e_contents e') = map c_initialValue (e_contents e) \<and>
      (\<forall>k. k \<noteq> entityId \<longrightarrow> getEntity m' k = getEntity m k)"
proof -
  from cache obtain ps where ps: "e_properties e = Some ps" "ps property = Some pv"
    by (auto simp: cached_property_def split: option.splits)
  define e' where "e' = e\<lparr>e_properties := Some (ps(property \<mapsto> pv\<lparr>pv_value := v\<rparr>)),
      e_contents := update_first (is_property_named property) (\<lambda>c. c\<lparr>c_value := v\<rparr>) (e_contents e)\<rparr>"
  have upd: "updateEntityProperty realm m entityId property v =
      (\<lparr>u_success = True, u_entityId = entityId, u_property = property,
        u_oldValue = pv_value pv, u_newValue = v, u_error = None\<rparr>, False, map_set entityId e' m,
       None)"
    using ent cached_lookup[OF cache] item ps
    by (simp add: updateEntityProperty_def e'_def Let_def)
  have "find (is_property_named property) (e_contents e') = Some (item\<lparr>c_value := v\<rparr>)"
    using item by (simp add: e'_def find_update_first is_property_named_value)
  moreover have "map c_initialValue (e_contents e') = map c_initialValue (e_contents e)"
    by (simp add: e'_def update_first_map)
  moreover have "cached_property e' property = Some (pv\<lparr>pv_value := v\<rparr>)"
    by (simp add: e'_def cached_property_def)
  moreover have "getEntity (map_set entityId e' m) entityId = Some e'"
    by (simp add: getEntity_def map_of_map_set_same)
  moreover have "\<forall>k. k \<noteq> entityId \<longrightarrow> getEntity (map_set entityId e' m) k = getEntity m k"
    by (simp add: getEntity_def map_of_map_set_other)
  ultimately show ?thesis using upd by simp
qed

theorem update_writes_cache_and_contents_witness:
  "getEntity (newDTDLModel [truck ''Haul_Truck_CAT_777_2'']) ''Haul_Truck_CAT_777_2''
     = Some (truck ''Haul_Truck_CAT_777_2'') \<and>
   cached_property (truck ''Haul_Truck_CAT_777_2'') ''focusSnapDistanceMeters''
     = Some focus_cached \<and>
   find (is_property_named ''focusSnapDistanceMeters'')
        (e_contents (truck ''Haul_Truck_CAT_777_2'')) = Some focus_item \<and>
   (\<exists>r m' e'.
      updateEntityProperty fresh_realm (newDTDLModel [truck ''Haul_Truck_CAT_777_2''])
        ''Haul_Truck_CAT_777_2'' ''focusSnapDistanceMeters'' (JNum (Fin 300))
        = (r, False, m', None) \<and>
      u_success r \<and> u_oldValue r = JNum (Fin 200) \<and> u_newValue r = JNum (Fin 300) \<and>
      getEntity m' ''Haul_Truck_CAT_777_2'' = Some e' \<and>
      map_option pv_value (cached_property e' ''focusSnapDistanceMeters'') = Some (JNum (Fin 300)) \<and>
      map_option c_value (find (is_property_named ''focusSnapDistanceMeters'') (e_contents e'))
        = Some (JNum (Fin 300)) \<and>
      map_option c_initialValue (find (is_property_named ''focusSnapDistanceMeters'') (e_contents e'))
        = Some (JNum (Fin 100)))"
proof -
  have h1: "getEntity (newDTDLModel [truck ''Haul_Truck_CAT_777_2'']) ''Haul_Truck_CAT_777_2''
     = Some (truck ''Haul_Truck_CAT_777_2'')"
    by (simp add: one_truck_model getEntity_def)
  from update_writes_cache_and_contents[OF h1 truck_focus(1) truck_focus(2),
      where v = "JNum (Fin 300)" and realm = fresh_realm]
  obtain r m' e' where
    "updateEntityProperty fresh_realm (newDTDLModel [truck ''Haul_Truck_CAT_777_2''])
        ''Haul_Truck_CAT_777_2'' ''focusSnapDistanceMeters'' (JNum (Fin 300))
        = (r, False, m', None)"
    "u_success r" "u_oldValue r = pv_value focus_cached" "u_newValue r = JNum (Fin 300)"
    "getEntity m' ''Haul_Truck_CAT_777_2'' = Some e'"
    "cached_property e' ''focusSnapDistanceMeters'' = Some (focus_cached\<lparr>pv_value := JNum (Fin 300)\<rparr>)"
    "find (is_property_named ''focusSnapDistanceMeters'') (e_contents e')
       = Some (focus_item\<lparr>c_value := JNum (Fin 300)\<rparr>)"
    by blast
  then have "\<exists>r m' e'.
      updateEntityProperty fresh_realm (newDTDLModel [truck ''Haul_Truck_CAT_777_2''])
        ''Haul_Truck_CAT_777_2'' ''focusSnapDistanceMeters'' (JNum (Fin 300))
        = (r, False, m', None) \<and>
      u_success r \<and> u_oldValue r = JNum (Fin 200) \<and> u_newValue r = JNum (Fin 300) \<and>
      getEntity m' ''Haul_Truck_CAT_777_2'' = Some e' \<and>
      map_option pv_value (cached_property e' ''focusSnapDistanceMeters'') = Some (JNum (Fin 300)) \<and>
      map_option c_value (find (is_property_named ''focusSnapDistanceMeters'') (e_contents e'))
        = Some (JNum (Fin 300)) \<and>
      map_option c_initialValue (find (is_property_named ''focusSnapDistanceMeters'') (e_contents e'))
        = Some (JNum (Fin 100))"
    by (intro exI[of _ r] exI[of _ m'] exI[of _ e']) (simp add: focus_cached_def focus_item_def)
  with h1 truck_focus show ?thesis by blast
qed

text \<open>
  An update that reports no success leaves the model as it was given and writes no shared
  object. It reports no success exactly when the entity is not in the model or the lookup
  of the name in the cache, among its own keys and the members it inherits, yields
  nothing.
\<close>

lemma update_failure_frame:
  assumes "updateEntityProperty realm m entityId property v = (r, warned, m', w)"
  shows "(u_success r \<longleftrightarrow>
            (\<exists>e. getEntity m entityId = Some e \<and> properties_lookup e property \<noteq> None)) \<and>
         (\<not> u_success r \<longrightarrow>
            \<not> warned \<and> m' = m \<and> w = None \<and> u_oldValue r = JUndefined \<and> u_error r \<noteq> None)"
  using assms
  by (auto simp: updateEntityProperty_def Let_def split: option.splits)

lemma lookup_nothing:
  "properties_lookup e property = None \<longleftrightarrow>
     (cached_property e property = None \<and>
      (e_properties e = None \<or>
       (property \<notin> set object_prototype_functions \<and> property \<noteq> ''__proto__'')))"
  by (auto simp: properties_lookup_def cached_property_def split: option.splits)



section \<open>Executors\<close>






lemma sorted_nonempty:
  assumes "telemetry \<noteq> []"
  shows "\<exists>mostRecent rest. sort_key (\<lambda>r. - timestamp r) telemetry = mostRecent # rest"
proof -
  from assms have "sort_key (\<lambda>r. - timestamp r) telemetry \<noteq> []"
    by (metis length_sort list.size(3) length_0_conv)
  then show ?thesis
    by (cases "sort_key (\<lambda>r. - timestamp r) telemetry") auto
qed






lemma example_queries:
  "q_property speed_query = Some (Telemetry speed_field)"
  "field_of speed_field = ''speedMph''"
  "q_operation (aggregate_query oo p) = oo"
  "q_property (aggregate_query oo p) = p"
  "getAggregateField (aggregate_query oo None) = ''speedMph''"
  "\<not> is_route_utilization hs (aggregate_query oo p)"
  "q_property plain_query = None"
  "q_property focus_query = Some (DTDL (createDTDLPropertyInfo focus_item))"
  by (simp_all add: speed_query_def speed_field_def plain_query_def field_of_def
      aggregate_query_def getAggregateField_def is_route_utilization_def filters_sourcePath_def
      given_def focus_query_def)



text \<open>
  C10. For a descriptor whose source is the schema, the property executor returns the
  current value unless it is undefined or null, else the initial value unless it is
  undefined or null, else "N/A"; the result is the same for every list of records.
\<close>

theorem dtdl_property_ignores_telemetry:
  assumes "q_property q = Some (DTDL dp)"
  shows "property_execute q telemetry =
           Inr \<lparr>r_value = (if \<not> nullish (d_value dp) then d_value dp
                           else if \<not> nullish (d_initialValue dp) then d_initialValue dp
                           else JStr ''N/A''),
                r_units = getUnitsForProperty (DTDL dp), r_metadata = None\<rparr>
         \<and> property_execute q telemetry = property_execute q telemetry'"
  using assms by (simp add: property_execute_def js_coalesce_def)

theorem dtdl_property_ignores_telemetry_witness:
  "q_property focus_query = Some (DTDL (createDTDLPropertyInfo focus_item)) \<and>
   map_sum id r_value (property_execute focus_query []) = Inr (JNum (Fin 200)) \<and>
   property_execute focus_query [] = property_execute focus_query [record_speed 1 10]"
proof -
  note t = dtdl_property_ignores_telemetry[OF example_queries(8),
      where telemetry = "[]" and telemetry' = "[record_speed 1 10]"]
  have "map_sum id r_value (property_execute focus_query []) = Inr (JNum (Fin 200))"
    by (simp add: conjunct1[OF t] createDTDLPropertyInfo_def focus_item_def nullish_def Let_def)
  with conjunct2[OF t] example_queries(8) show ?thesis by blast
qed

lemma route_condition:
  "is_route_utilization hs q \<longleftrightarrow>
     (q_operation q = Some OpAverage \<and> q_property q = None \<and>
      (\<exists>f p. q_filters q = Some f \<and> f_sourcePath f = Some p \<and> p \<noteq> []) \<and> hs)"
  by (auto simp: is_route_utilization_def filters_sourcePath_def given_def split: option.splits)

lemma aggregated_field:
  "getAggregateField q =
     (case q_property q of
        Some (Telemetry t) \<Rightarrow> if t_telemetryField t \<noteq> [] then t_telemetryField t else t_name t
      | _ \<Rightarrow> ''speedMph'')"
  by (simp add: getAggregateField_def field_of_def split: option.splits PropertyInfo.splits)

lemma no_numbers:
  "(\<forall>r\<in>set telemetry. \<forall>n. props r f = JNum n \<longrightarrow> n = NaN) \<Longrightarrow> extractValues telemetry f = []"
  by (induction telemetry) (auto split: jsval.splits)

text \<open>
  C6 (as amended). With no records, the property executor returns "N/A" with record
  count 0 for a telemetry-sourced property, and the aggregate executor returns 0 with
  record count 0 for a query that has an operation. With records of which none holds a
  number other than NaN in the aggregated field (the telemetry field of the property, or
  its name, and speedMph without a telemetry property), the aggregate executor returns 0
  with the number of records as record count, unless the query is a route utilization
  query (average, no property, a source path, a telemetry service); for such a query it
  returns the number of records divided by the minutes of the window, times 100, in
  percent, with the number of records as record count. For these queries the record count
  of a non-empty window is its length, so it is 0 for the empty window only. A query
  without a property (property executor) or without an operation (aggregate executor) is
  an error, and a schema-sourced property gives its current value, else its initial value,
  else "N/A", without a record count, whatever the records.
\<close>

theorem empty_window_results:
  "(q_property q = Some (Telemetry tp) \<longrightarrow>
      property_execute q [] =
        Inr \<lparr>r_value = JStr ''N/A'', r_units = getUnitsForProperty (Telemetry tp),
             r_metadata = Some \<lparr>recordCount = Some 0, timeWindow = None\<rparr>\<rparr>)
   \<and> (q_operation q = Some operation \<longrightarrow>
      aggregate_execute hs q [] =
        Inr \<lparr>r_value = JNum (Fin 0), r_units = aggregate_units (q_property q),
             r_metadata = Some \<lparr>recordCount = Some 0, timeWindow = None\<rparr>\<rparr>)
   \<and> (q_operation q = Some operation \<and> telemetry \<noteq> [] \<and>
      \<not> (operation = OpAverage \<and> q_property q = None \<and>
         (\<exists>f p. q_filters q = Some f \<and> f_sourcePath f = Some p \<and> p \<noteq> []) \<and> hs) \<and>
      (\<forall>r\<in>set telemetry. \<forall>n.
         props r (case q_property q of
                    Some (Telemetry t) \<Rightarrow>
                      if t_telemetryField t \<noteq> [] then t_telemetryField t else t_name t
                  | _ \<Rightarrow> ''speedMph'') = JNum n \<longrightarrow> n = NaN) \<longrightarrow>
      aggregate_execute hs q telemetry =
        Inr \<lparr>r_value = JNum (Fin 0), r_units = aggregate_units (q_property q),
             r_metadata = Some \<lparr>recordCount = Some (length telemetry), timeWindow = None\<rparr>\<rparr>)
   \<and> (q_operation q = Some OpAverage \<and> q_property q = None \<and>
      q_filters q = Some f \<and> f_sourcePath f = Some p \<and> p \<noteq> [] \<and> hs \<and> telemetry \<noteq> [] \<longrightarrow>
      aggregate_execute hs q telemetry =
        Inr \<lparr>r_value = JNum (js_mul (js_div (Fin (real (length telemetry)))
                                             (minutes (q_timeWindow q))) (Fin 100)),
             r_units = ''%'',
             r_metadata = Some \<lparr>recordCount = Some (length telemetry),
                                timeWindow = Some (q_timeWindow q)\<rparr>\<rparr>)
   \<and> (q_operation q = Some operation \<and> telemetry \<noteq> [] \<longrightarrow>
      (\<exists>res md. aggregate_execute hs q telemetry = Inr res \<and> r_metadata res = Some md \<and>
                recordCount md = Some (length telemetry) \<and> recordCount md \<noteq> Some 0))
   \<and> (q_property q = Some (Telemetry tp) \<and> telemetry \<noteq> [] \<longrightarrow>
      (\<exists>res md. property_execute q telemetry = Inr res \<and> r_metadata res = Some md \<and>
                recordCount md = Some (length telemetry) \<and> recordCount md \<noteq> Some 0))
   \<and> (q_property q = None \<longrightarrow> property_execute q telemetry = Inl RequiresProperty)
   \<and> (q_operation q = None \<longrightarrow> aggregate_execute hs q telemetry = Inl RequiresOperation)
   \<and> (q_property q = Some (DTDL dp) \<longrightarrow>
      property_execute q telemetry =
        Inr \<lparr>r_value = (if \<not> nullish (d_value dp) then d_value dp
                        else if \<not> nullish (d_initialValue dp) then d_initialValue dp
                        else JStr ''N/A''),
             r_units = getUnitsForProperty (DTDL dp), r_metadata = None\<rparr>)"
proof (intro conjI impI)
  assume "q_property q = Some (Telemetry tp)"
  then show "property_execute q [] =
        Inr \<lparr>r_value = JStr ''N/A'', r_units = getUnitsForProperty (Telemetry tp),
             r_metadata = Some \<lparr>recordCount = Some 0, timeWindow = None\<rparr>\<rparr>"
    by (simp add: property_execute_def)
next
  assume "q_operation q = Some operation"
  then show "aggregate_execute hs q [] =
        Inr \<lparr>r_value = JNum (Fin 0), r_units = aggregate_units (q_property q),
             r_metadata = Some \<lparr>recordCount = Some 0, timeWindow = None\<rparr>\<rparr>"
    by (simp add: aggregate_execute_def)
next
  assume a: "q_operation q = Some operation \<and> telemetry \<noteq> [] \<and>
      \<not> (operation = OpAverage \<and> q_property q = None \<and>
         (\<exists>f p. q_filters q = Some f \<and> f_sourcePath f = Some p \<and> p \<noteq> []) \<and> hs) \<and>
      (\<forall>r\<in>set telemetry. \<forall>n.
         props r (case q_property q of
                    Some (Telemetry t) \<Rightarrow>
                      if t_telemetryField t \<noteq> [] then t_telemetryField t else t_name t
                  | _ \<Rightarrow> ''speedMph'') = JNum n \<longrightarrow> n = NaN)"
  then have "extractValues telemetry (getAggregateField q) = []"
    unfolding aggregated_field by (intro no_numbers) blast
  moreover from a have "\<not> is_route_utilization hs q"
    unfolding route_condition by auto
  ultimately show "aggregate_execute hs q telemetry =
        Inr \<lparr>r_value = JNum (Fin 0), r_units = aggregate_units (q_property q),
             r_metadata = Some \<lparr>recordCount = Some (length telemetry), timeWindow = None\<rparr>\<rparr>"
    using a by (simp add: aggregate_execute_def)
next
  assume a: "q_operation q = Some OpAverage \<and> q_property q = None \<and>
      q_filters q = Some f \<and> f_sourcePath f = Some p \<and> p \<noteq> [] \<and> hs \<and> telemetry \<noteq> []"
  then have "is_route_utilization hs q"
    unfolding route_condition by blast
  then show "aggregate_execute hs q telemetry =
        Inr \<lparr>r_value = JNum (js_mul (js_div (Fin (real (length telemetry)))
                                             (minutes (q_timeWindow q))) (Fin 100)),
             r_units = ''%'',
             r_metadata = Some \<lparr>recordCount = Some (length telemetry),
                                timeWindow = Some (q_timeWindow q)\<rparr>\<rparr>"
    using a by (simp add: aggregate_execute_def calculateRouteUtilization_def)
next
  assume "q_operation q = Some operation \<and> telemetry \<noteq> []"
  then show "\<exists>res md. aggregate_execute hs q telemetry = Inr res \<and> r_metadata res = Some md \<and>
                recordCount md = Some (length telemetry) \<and> recordCount md \<noteq> Some 0"
    by (simp add: aggregate_execute_def Let_def)
next
  assume a: "q_property q = Some (Telemetry tp) \<and> telemetry \<noteq> []"
  then obtain mostRecent rest where
    "sort_key (\<lambda>r. - timestamp r) telemetry = mostRecent # rest"
    using sorted_nonempty by blast
  with a show "\<exists>res md. property_execute q telemetry = Inr res \<and> r_metadata res = Some md \<and>
                recordCount md = Some (length telemetry) \<and> recordCount md \<noteq> Some 0"
    by (auto simp: property_execute_def Let_def split: jsval.splits)
next
  assume "q_property q = None"
  then show "property_execute q telemetry = Inl RequiresProperty"
    by (simp add: property_execute_def)
next
  assume "q_operation q = None"
  then show "aggregate_execute hs q telemetry = Inl RequiresOperation"
    by (simp add: aggregate_execute_def)
next
  assume "q_property q = Some (DTDL dp)"
  then show "property_execute q telemetry =
        Inr \<lparr>r_value = (if \<not> nullish (d_value dp) then d_value dp
                        else if \<not> nullish (d_initialValue dp) then d_initialValue dp
                        else JStr ''N/A''),
             r_units = getUnitsForProperty (DTDL dp), r_metadata = None\<rparr>"
    by (simp add: property_execute_def js_coalesce_def)
qed

lemma record_on_speed: "props (record_on p) ''speedMph'' = JUndefined"
  by (simp add: record_on_def)

lemma one_record_utilization:
  "js_mul (js_div (Fin (real (length [r]))) (Fin 60)) (Fin 100) =
     Fin (7505999378950827 / 2 ^ 52)"
proof -
  define a :: real where "a = 4803839602528529 / 2 ^ 58"
  have 1: "binary64 (1 / 60) = Fin a" unfolding a_def by (rule binary64_sixtieth)
  have 2: "binary64 (a * 100) = Fin (7505999378950827 / 2 ^ 52)"
    unfolding a_def by (rule binary64_utilization)
  show ?thesis by (simp add: 1 2)
qed

lemma utilization_query_facts:
  "q_operation utilization_query = Some OpAverage"
  "q_property utilization_query = None"
  "q_filters utilization_query = Some (paths (Some ''path_1'') None)"
  "f_sourcePath (paths (Some ''path_1'') None) = Some ''path_1''"
  "minutes (q_timeWindow utilization_query) = Fin 60"
  by (simp_all add: utilization_query_def plain_query_def paths_def hour_def)

theorem empty_window_results_witness:
  "q_property speed_query = Some (Telemetry speed_field) \<and>
   said (property_execute speed_query []) = Inr (JStr ''N/A'', Some (Some 0)) \<and>
   said (property_execute speed_query [record_on ''A'']) = Inr (JStr ''N/A'', Some (Some 1)) \<and>
   q_operation (aggregate_query (Some OpMax) None) = Some OpMax \<and>
   q_property (aggregate_query (Some OpMax) None) = None \<and>
   props (record_on ''A'') ''speedMph'' = JUndefined \<and>
   said (aggregate_execute True (aggregate_query (Some OpMax) None) [])
     = Inr (JNum (Fin 0), Some (Some 0)) \<and>
   said (aggregate_execute True (aggregate_query (Some OpMax) None) [record_on ''A''])
     = Inr (JNum (Fin 0), Some (Some 1)) \<and>
   q_operation utilization_query = Some OpAverage \<and>
   q_property utilization_query = None \<and>
   q_filters utilization_query = Some (paths (Some ''path_1'') None) \<and>
   f_sourcePath (paths (Some ''path_1'') None) = Some ''path_1'' \<and>
   said (aggregate_execute True utilization_query [record_on ''path_1''])
     = Inr (JNum (Fin (7505999378950827 / 2 ^ 52)), Some (Some 1)) \<and>
   q_property plain_query = None \<and>
   said (property_execute plain_query []) = Inl RequiresProperty \<and>
   q_operation (aggregate_query None None) = None \<and>
   said (aggregate_execute True (aggregate_query None None) []) = Inl RequiresOperation \<and>
   q_property focus_query = Some (DTDL (createDTDLPropertyInfo focus_item)) \<and>
   said (property_execute focus_query []) = Inr (JNum (Fin 200), None)"
proof -
  note P = empty_window_results[where q = speed_query and tp = speed_field
      and telemetry = "[record_on ''A'']" and hs = True and operation = OpMax]
  note A = empty_window_results[where q = "aggregate_query (Some OpMax) None"
      and telemetry = "[record_on ''A'']" and hs = True and operation = OpMax]
  note U = empty_window_results[where q = utilization_query
      and telemetry = "[record_on ''path_1'']" and hs = True and operation = OpAverage
      and f = "paths (Some ''path_1'') None" and p = "''path_1''"]
  note N = empty_window_results[where q = plain_query and telemetry = "[]" and hs = True
      and operation = OpMax]
  note O = empty_window_results[where q = "aggregate_query None None" and telemetry = "[]"
      and hs = True and operation = OpMax]
  note F = empty_window_results[where q = focus_query and telemetry = "[]" and hs = True
      and dp = "createDTDLPropertyInfo focus_item" and operation = OpMax]
  have ex: "\<forall>r\<in>set [record_on ''A'']. \<forall>n. props r ''speedMph'' = JNum n \<longrightarrow> n = NaN"
    by (simp add: record_on_speed)
  have p0: "said (property_execute speed_query []) = Inr (JStr ''N/A'', Some (Some 0))"
    using P example_queries(1) by (simp add: said_def)
  have "\<exists>res md. property_execute speed_query [record_on ''A''] = Inr res \<and>
          r_metadata res = Some md \<and> recordCount md = Some (length [record_on ''A'']) \<and>
          recordCount md \<noteq> Some 0"
    using P example_queries(1) by blast
  moreover have "r_value res = JStr ''N/A''"
    if "property_execute speed_query [record_on ''A''] = Inr res" for res
    using that
    by (auto simp: property_execute_def example_queries record_on_speed js_coalesce_def
        nullish_def Let_def)
  ultimately have p1: "said (property_execute speed_query [record_on ''A''])
      = Inr (JStr ''N/A'', Some (Some 1))"
    by (auto simp: said_def)
  have a0: "said (aggregate_execute True (aggregate_query (Some OpMax) None) [])
     = Inr (JNum (Fin 0), Some (Some 0))"
    using A by (simp add: said_def example_queries)
  have a1: "said (aggregate_execute True (aggregate_query (Some OpMax) None) [record_on ''A''])
     = Inr (JNum (Fin 0), Some (Some 1))"
    using conjunct1[OF conjunct2[OF conjunct2[OF A]]] ex
    by (simp add: said_def example_queries)
  have hyp_u: "q_operation utilization_query = Some OpAverage \<and>
      q_property utilization_query = None \<and>
      q_filters utilization_query = Some (paths (Some ''path_1'') None) \<and>
      f_sourcePath (paths (Some ''path_1'') None) = Some ''path_1'' \<and> ''path_1'' \<noteq> [] \<and> True \<and>
      [record_on ''path_1''] \<noteq> []"
    by (simp add: utilization_query_facts)
  have u: "said (aggregate_execute True utilization_query [record_on ''path_1''])
     = Inr (JNum (Fin (7505999378950827 / 2 ^ 52)), Some (Some 1))"
    unfolding mp[OF conjunct1[OF conjunct2[OF conjunct2[OF conjunct2[OF U]]]] hyp_u]
      utilization_query_facts(5) one_record_utilization
    by (simp add: said_def)
  have n: "said (property_execute plain_query []) = Inl RequiresProperty"
    using N by (simp add: said_def example_queries)
  have o: "said (aggregate_execute True (aggregate_query None None) []) = Inl RequiresOperation"
    using O by (simp add: said_def example_queries)
  have f: "said (property_execute focus_query []) = Inr (JNum (Fin 200), None)"
    using F example_queries(8)
    by (simp add: said_def createDTDLPropertyInfo_def focus_item_def nullish_def Let_def)
  show ?thesis
    by (intro conjI)
       (rule example_queries(1) example_queries(4) example_queries(3) example_queries(7)
          example_queries(8) utilization_query_facts p0 p1 a0 a1 u n o f record_on_speed)+
qed

theorem empty_window_counterexample:
  "said (property_execute plain_query []) = Inl RequiresProperty \<and>
   said (aggregate_execute True (aggregate_query None None) []) = Inl RequiresOperation \<and>
   said (property_execute focus_query []) = Inr (JNum (Fin 200), None) \<and>
   props (record_on ''path_1'') ''speedMph'' = JUndefined \<and>
   said (aggregate_execute True utilization_query [record_on ''path_1''])
     = Inr (JNum (Fin (7505999378950827 / 2 ^ 52)), Some (Some 1))"
proof -
  have "said (aggregate_execute True utilization_query [record_on ''path_1''])
     = Inr (JNum (js_mul (js_div (Fin (real (length [record_on ''path_1'']))) (Fin 60))
                         (Fin 100)), Some (Some 1))"
    by (simp add: said_def aggregate_execute_def utilization_query_def plain_query_def
        is_route_utilization_def filters_sourcePath_def paths_def given_def
        calculateRouteUtilization_def hour_def del: js_mul.simps js_div.simps)
  then have "said (aggregate_execute True utilization_query [record_on ''path_1''])
     = Inr (JNum (Fin (7505999378950827 / 2 ^ 52)), Some (Some 1))"
    unfolding one_record_utilization .
  moreover have "said (property_execute plain_query []) = Inl RequiresProperty"
    "said (aggregate_execute True (aggregate_query None None) []) = Inl RequiresOperation"
    "said (property_execute focus_query []) = Inr (JNum (Fin 200), None)"
    by (simp_all add: said_def property_execute_def aggregate_execute_def plain_query_def
      aggregate_query_def focus_query_def createDTDLPropertyInfo_def
      focus_item_def js_coalesce_def nullish_def Let_def)
  ultimately show ?thesis
    using record_on_speed by blast
qed

section \<open>Update validation\<close>

lemma validate_number:
  assumes "cached_property entity property = Some propertyDef"
    and "pv_type propertyDef = ''number''"
    and "getConstraint (type_or_unknown entity) property = constraint"
    and "editable_ok constraint propertyDef"
  shows "validate getConstraint entity property (JNum n) =
     (case effective_min constraint propertyDef of
        Some mn \<Rightarrow>
          if js_lt n mn then Invalid (BelowMinimum n mn)
          else (case effective_max constraint propertyDef of
                  Some mx \<Rightarrow> if js_lt mx n then Invalid (AboveMaximum n mx)
                             else check_allowed constraint propertyDef (JNum n)
                | None \<Rightarrow> check_allowed constraint propertyDef (JNum n))
      | None \<Rightarrow>
          (case effective_max constraint propertyDef of
             Some mx \<Rightarrow> if js_lt mx n then Invalid (AboveMaximum n mx)
                        else check_allowed constraint propertyDef (JNum n)
           | None \<Rightarrow> check_allowed constraint propertyDef (JNum n)))"
  using cached_lookup[OF assms(1)] assms(2-4)
  by (auto simp: validate_def editable_ok_def check_range_def effective_min_def effective_max_def
      opt_coalesce_def js_gt_def Let_def split: option.splits)

text \<open>
  C3. For a numeric property that passes the editability checks, with the bounds 0 and
  100, the validator rejects -10 naming the minimum, lets 100 pass to the allowed-values
  check, and rejects 100.0001 naming the maximum: a value passes the range check exactly
  when it lies in the closed interval. Each bound is the one of the constraint row when
  the row gives it, else the one the property declares; a value below the minimum or
  above the maximum in force is rejected, every other number passes to the
  allowed-values check.
\<close>

theorem validate_bounds_inclusive:
  assumes cp: "cached_property entity property = Some propertyDef"
    and num: "pv_type propertyDef = ''number''"
    and row: "getConstraint (type_or_unknown entity) property = constraint"
    and ed: "editable_ok constraint propertyDef"
  shows
   "(effective_min constraint propertyDef = Some (Fin 0) \<and>
     effective_max constraint propertyDef = Some (Fin 100) \<longrightarrow>
       validate getConstraint entity property (JNum (Fin (- 10)))
         = Invalid (BelowMinimum (Fin (- 10)) (Fin 0)) \<and>
       validate getConstraint entity property (JNum (Fin 100))
         = check_allowed constraint propertyDef (JNum (Fin 100)) \<and>
       validate getConstraint entity property (JNum (Fin 100.0001))
         = Invalid (AboveMaximum (Fin 100.0001) (Fin 100)) \<and>
       (\<forall>x. validate getConstraint entity property (JNum (Fin x)) =
            (if x < 0 then Invalid (BelowMinimum (Fin x) (Fin 0))
             else if 100 < x then Invalid (AboveMaximum (Fin x) (Fin 100))
             else check_allowed constraint propertyDef (JNum (Fin x)))))
    \<and> (\<forall>mn n. effective_min constraint propertyDef = Some mn \<and> js_lt n mn \<longrightarrow>
          validate getConstraint entity property (JNum n) = Invalid (BelowMinimum n mn))
    \<and> (\<forall>mx n. effective_max constraint propertyDef = Some mx \<and> js_lt mx n \<and>
              (\<forall>mn. effective_min constraint propertyDef = Some mn \<longrightarrow> \<not> js_lt n mn) \<longrightarrow>
          validate getConstraint entity property (JNum n) = Invalid (AboveMaximum n mx))
    \<and> (\<forall>n. (\<forall>mn. effective_min constraint propertyDef = Some mn \<longrightarrow> \<not> js_lt n mn) \<and>
            (\<forall>mx. effective_max constraint propertyDef = Some mx \<longrightarrow> \<not> js_lt mx n) \<longrightarrow>
          validate getConstraint entity property (JNum n)
            = check_allowed constraint propertyDef (JNum n))"
proof -
  note v = validate_number[where getConstraint = getConstraint, OF cp num row ed]
  show ?thesis
    by (auto simp: v effective_min_def effective_max_def split: option.splits)
qed

lemma focus_row_facts:
  "cached_property (truck i) ''focusSnapDistanceMeters'' = Some focus_cached"
  "pv_type focus_cached = ''number''"
  "focus_store (type_or_unknown (truck i)) ''focusSnapDistanceMeters'' = Some focus_row"
  "editable_ok (Some focus_row) focus_cached"
  "effective_min (Some focus_row) focus_cached = Some (Fin 0)"
  "effective_max (Some focus_row) focus_cached = Some (Fin 100)"
  "check_allowed (Some focus_row) focus_cached v = Valid"
  by (simp_all add: cached_property_def truck_def focus_cached_def focus_store_def
      type_or_unknown_def focus_row_def editable_ok_def def_readOnly_def effective_min_def
      effective_max_def check_allowed_def opt_coalesce_def def_allowedValues_def)

lemma bounded_facts:
  "cached_property (bounded_truck i) ''focusSnapDistanceMeters'' = Some bounded_cached"
  "pv_type bounded_cached = ''number''"
  "no_store (type_or_unknown (bounded_truck i)) ''focusSnapDistanceMeters'' = None"
  "editable_ok None bounded_cached"
  "effective_min None bounded_cached = Some (Fin 0)"
  "effective_max None bounded_cached = Some (Fin 100)"
  "check_allowed None bounded_cached v = Valid"
  by (simp_all add: cached_property_def bounded_truck_def truck_def bounded_cached_def
      focus_cached_def no_store_def editable_ok_def def_readOnly_def effective_min_def
      effective_max_def check_allowed_def opt_coalesce_def def_allowedValues_def def_min_def
      def_max_def)

theorem validate_bounds_inclusive_witness:
  "cached_property (truck ''Haul_Truck_CAT_777_2'') ''focusSnapDistanceMeters''
     = Some focus_cached \<and>
   pv_type focus_cached = ''number'' \<and>
   focus_store (type_or_unknown (truck ''Haul_Truck_CAT_777_2'')) ''focusSnapDistanceMeters''
     = Some focus_row \<and>
   editable_ok (Some focus_row) focus_cached \<and>
   effective_min (Some focus_row) focus_cached = Some (Fin 0) \<and>
   effective_max (Some focus_row) focus_cached = Some (Fin 100) \<and>
   validate focus_store (truck ''Haul_Truck_CAT_777_2'') ''focusSnapDistanceMeters''
     (JNum (Fin (- 10))) = Invalid (BelowMinimum (Fin (- 10)) (Fin 0)) \<and>
   validate focus_store (truck ''Haul_Truck_CAT_777_2'') ''focusSnapDistanceMeters''
     (JNum (Fin 100)) = Valid \<and>
   validate focus_store (truck ''Haul_Truck_CAT_777_2'') ''focusSnapDistanceMeters''
     (JNum (Fin 100.0001)) = Invalid (AboveMaximum (Fin 100.0001) (Fin 100)) \<and>
   validate focus_store (truck ''Haul_Truck_CAT_777_2'') ''focusSnapDistanceMeters''
     (JNum (Fin 0)) = Valid \<and>
   validate focus_store (truck ''Haul_Truck_CAT_777_2'') ''focusSnapDistanceMeters''
     (JNum NaN) = Valid \<and>
   effective_min None bounded_cached = Some (Fin 0) \<and>
   effective_max None bounded_cached = Some (Fin 100) \<and>
   validate no_store (bounded_truck ''Haul_Truck_CAT_777_2'') ''focusSnapDistanceMeters''
     (JNum (Fin (- 10))) = Invalid (BelowMinimum (Fin (- 10)) (Fin 0)) \<and>
   validate no_store (bounded_truck ''Haul_Truck_CAT_777_2'') ''focusSnapDistanceMeters''
     (JNum (Fin 100)) = Valid \<and>
   validate no_store (bounded_truck ''Haul_Truck_CAT_777_2'') ''focusSnapDistanceMeters''
     (JNum (Fin 101)) = Invalid (AboveMaximum (Fin 101) (Fin 100))"
proof -
  note R = validate_bounds_inclusive[where getConstraint = focus_store,
      OF focus_row_facts(1) focus_row_facts(2) focus_row_facts(3) focus_row_facts(4)]
  note B = validate_bounds_inclusive[where getConstraint = no_store,
      OF bounded_facts(1) bounded_facts(2) bounded_facts(3) bounded_facts(4)]
  have r: "validate focus_store (truck ''Haul_Truck_CAT_777_2'') ''focusSnapDistanceMeters''
     (JNum (Fin (- 10))) = Invalid (BelowMinimum (Fin (- 10)) (Fin 0))"
   "validate focus_store (truck ''Haul_Truck_CAT_777_2'') ''focusSnapDistanceMeters''
     (JNum (Fin 100)) = Valid"
   "validate focus_store (truck ''Haul_Truck_CAT_777_2'') ''focusSnapDistanceMeters''
     (JNum (Fin 100.0001)) = Invalid (AboveMaximum (Fin 100.0001) (Fin 100))"
   "validate focus_store (truck ''Haul_Truck_CAT_777_2'') ''focusSnapDistanceMeters''
     (JNum (Fin 0)) = Valid"
    using conjunct1[OF R] by (simp_all add: focus_row_facts)
  have rn: "validate focus_store (truck ''Haul_Truck_CAT_777_2'') ''focusSnapDistanceMeters''
     (JNum NaN) = Valid"
    using conjunct2[OF conjunct2[OF conjunct2[OF R]]] by (simp add: focus_row_facts)
  have b: "validate no_store (bounded_truck ''Haul_Truck_CAT_777_2'') ''focusSnapDistanceMeters''
     (JNum (Fin (- 10))) = Invalid (BelowMinimum (Fin (- 10)) (Fin 0))"
   "validate no_store (bounded_truck ''Haul_Truck_CAT_777_2'') ''focusSnapDistanceMeters''
     (JNum (Fin 100)) = Valid"
    using conjunct1[OF B] by (simp_all add: bounded_facts)
  have b2: "validate no_store (bounded_truck ''Haul_Truck_CAT_777_2'') ''focusSnapDistanceMeters''
     (JNum (Fin 101)) = Invalid (AboveMaximum (Fin 101) (Fin 100))"
    using conjunct1[OF conjunct2[OF conjunct2[OF B]]] by (simp add: bounded_facts)
  show ?thesis
    by (intro conjI) (rule focus_row_facts bounded_facts r rn b b2)+
qed

section \<open>Command resolution\<close>

text \<open>
  C5. Command resolution fails with the error PROPERTY_NOT_EDITABLE whenever the
  property resolved for the first resolved entity has the source telemetry; a resolved
  command has a schema-sourced property, the entities of the bulk resolver, and the
  scope the intent states, else bulk for more than one entity and single otherwise.
\<close>

theorem resolveCommand_rejects_telemetry:
  "(resolveBulk (ci_targetEntity intent) m (ci_filter intent) = Inr (first # others) \<and>
    resolveProperty first (ci_property intent) = Some p \<and> source p = Src_telemetry \<longrightarrow>
      resolveCommand m intent = Inl (PROPERTY_NOT_EDITABLE (ci_property intent)))
   \<and> (resolveCommand m intent = Inr cmd \<longrightarrow>
        source (rc_property cmd) = Src_dtdl \<and>
        resolveBulk (ci_targetEntity intent) m (ci_filter intent) = Inr (rc_targetEntities cmd) \<and>
        rc_scope cmd = (case ci_scope intent of
                          Some sc \<Rightarrow> sc
                        | None \<Rightarrow> if length (rc_targetEntities cmd) > 1 then Bulk else Single))"
proof (intro conjI impI)
  assume "resolveBulk (ci_targetEntity intent) m (ci_filter intent) = Inr (first # others) \<and>
    resolveProperty first (ci_property intent) = Some p \<and> source p = Src_telemetry"
  then show "resolveCommand m intent = Inl (PROPERTY_NOT_EDITABLE (ci_property intent))"
    by (simp add: resolveCommand_def)
next
  assume ok: "resolveCommand m intent = Inr cmd"
  then obtain entities where b: "resolveBulk (ci_targetEntity intent) m (ci_filter intent) = Inr entities"
    by (auto simp: resolveCommand_def split: sum.splits)
  with ok obtain first others where e: "entities = first # others"
    by (auto simp: resolveCommand_def split: list.splits)
  with ok b obtain p where p: "resolveProperty first (ci_property intent) = Some p"
    by (auto simp: resolveCommand_def split: option.splits)
  from ok b e p have src: "source p = Src_dtdl"
    by (auto simp: resolveCommand_def split: if_splits)
  show "source (rc_property cmd) = Src_dtdl"
    using ok b e p src by (auto simp: resolveCommand_def)
  show "resolveBulk (ci_targetEntity intent) m (ci_filter intent) = Inr (rc_targetEntities cmd)"
    using ok b e p src by (auto simp: resolveCommand_def)
  show "rc_scope cmd = (case ci_scope intent of
                          Some sc \<Rightarrow> sc
                        | None \<Rightarrow> if length (rc_targetEntities cmd) > 1 then Bulk else Single)"
    using ok b e p src by (auto simp: resolveCommand_def)
qed

lemma two_trucks_model:
  "two_trucks = [(''Haul_Truck_CAT_777_2'', truck ''Haul_Truck_CAT_777_2''),
                 (''Haul_Truck_CAT_777_3'', truck ''Haul_Truck_CAT_777_3'')]"
  by (simp add: two_trucks_def newDTDLModel_def addEntity_def truck_def)

lemma all_trucks:
  "resolveBulk ''all trucks'' two_trucks None
     = Inr [truck ''Haul_Truck_CAT_777_2'', truck ''Haul_Truck_CAT_777_3'']"
proof -
  have "toLowerCase ''all trucks'' = ''all trucks''" by code_simp
  then show ?thesis
    by (simp add: resolveBulk_def two_trucks_model getAllEntities_def type_filter_ok_def
        relationship_filter_ok_def)
qed

lemma exact_truck:
  "resolveBulk ''Haul_Truck_CAT_777_3'' two_trucks None = Inr [truck ''Haul_Truck_CAT_777_3'']"
proof -
  have "toLowerCase ''Haul_Truck_CAT_777_3'' = ''haul_truck_cat_777_3''" by code_simp
  then show ?thesis
    by (simp add: resolveBulk_def resolve_def two_trucks_model getEntity_def)
qed

lemma speed_is_telemetry:
  "resolveProperty (truck ''Haul_Truck_CAT_777_2'') ''speed'' = Some (Telemetry speed_field)"
proof -
  have n: "normalizePropertyName ''speed'' = ''speed''" by code_simp
  have d: "findPropertyInDTDL [focus_item] ''speed'' = None"
    by code_simp
  have t: "findPropertyInTelemetry ''speed'' = Some speed_field"
    by code_simp
  show ?thesis
    by (simp add: resolveProperty_def n truck_def d t del: findPropertyInDTDL.simps)
qed

lemma snap_is_schema:
  "resolveProperty (truck i) ''snap distance'' = Some (DTDL (createDTDLPropertyInfo focus_item))"
proof -
  have n: "normalizePropertyName ''snap distance'' = ''snapdistance''" by code_simp
  have v: "normalizePropertyName ''focusSnapDistanceMeters'' \<noteq> ''snapdistance''" by code_simp
  have w: "variation_matches [''focus snap distance'', ''snap distance'',
             ''focus distance'', ''focussnapdistancemeters''] ''snapdistance''" by code_simp
  have m: "map_of PROPERTY_NAME_VARIATIONS ''focusSnapDistanceMeters''
     = Some [''focus snap distance'', ''snap distance'',
             ''focus distance'', ''focussnapdistancemeters'']" by code_simp
  show ?thesis
    by (simp add: resolveProperty_def n truck_def focus_item_def v w m)
qed

theorem resolveCommand_rejects_telemetry_witness:
  "resolveBulk ''all trucks'' two_trucks None
     = Inr [truck ''Haul_Truck_CAT_777_2'', truck ''Haul_Truck_CAT_777_3''] \<and>
   resolveProperty (truck ''Haul_Truck_CAT_777_2'') ''speed'' = Some (Telemetry speed_field) \<and>
   source (Telemetry speed_field) = Src_telemetry \<and>
   resolveCommand two_trucks (set_focus ''all trucks'' ''speed'')
     = Inl (PROPERTY_NOT_EDITABLE ''speed'') \<and>
   map_sum id (\<lambda>c. (source (rc_property c), rc_scope c, length (rc_targetEntities c)))
     (resolveCommand two_trucks (set_focus ''all trucks'' ''snap distance''))
     = Inr (Src_dtdl, Bulk, 2) \<and>
   map_sum id (\<lambda>c. (source (rc_property c), rc_scope c, length (rc_targetEntities c)))
     (resolveCommand two_trucks (set_focus ''Haul_Truck_CAT_777_3'' ''snap distance''))
     = Inr (Src_dtdl, Single, 1) \<and>
   map_sum id (\<lambda>c. (source (rc_property c), rc_scope c, length (rc_targetEntities c)))
     (resolveCommand two_trucks
        ((set_focus ''all trucks'' ''snap distance'')\<lparr>ci_scope := Some Single\<rparr>))
     = Inr (Src_dtdl, Single, 2)"
proof -
  let ?reject = "set_focus ''all trucks'' ''speed''"
  let ?bulk = "set_focus ''all trucks'' ''snap distance''"
  let ?single = "set_focus ''Haul_Truck_CAT_777_3'' ''snap distance''"
  let ?stated = "(set_focus ''all trucks'' ''snap distance'')\<lparr>ci_scope := Some Single\<rparr>"
  have i: "ci_targetEntity (set_focus t ph) = t" "ci_filter (set_focus t ph) = None"
    "ci_property (set_focus t ph) = ph" "ci_scope (set_focus t ph) = None" for t ph
    by (simp_all add: set_focus_def)
  have hyp: "resolveBulk (ci_targetEntity ?reject) two_trucks (ci_filter ?reject)
       = Inr (truck ''Haul_Truck_CAT_777_2'' # [truck ''Haul_Truck_CAT_777_3'']) \<and>
     resolveProperty (truck ''Haul_Truck_CAT_777_2'') (ci_property ?reject)
       = Some (Telemetry speed_field) \<and>
     source (Telemetry speed_field) = Src_telemetry"
    by (simp add: i all_trucks speed_is_telemetry)
  from mp[OF conjunct1[OF resolveCommand_rejects_telemetry[where intent = ?reject
      and m = two_trucks]] hyp]
  have rej: "resolveCommand two_trucks ?reject = Inl (PROPERTY_NOT_EDITABLE ''speed'')"
    by (simp add: i)
  have ok: "\<exists>cmd. resolveCommand two_trucks ?bulk = Inr cmd"
    "\<exists>cmd. resolveCommand two_trucks ?single = Inr cmd"
    "\<exists>cmd. resolveCommand two_trucks ?stated = Inr cmd"
    by (simp_all add: resolveCommand_def i all_trucks exact_truck snap_is_schema)
  from ok(1) obtain c1 where c1: "resolveCommand two_trucks ?bulk = Inr c1" by blast
  from ok(2) obtain c2 where c2: "resolveCommand two_trucks ?single = Inr c2" by blast
  from ok(3) obtain c3 where c3: "resolveCommand two_trucks ?stated = Inr c3" by blast
  note f1 = mp[OF conjunct2[OF resolveCommand_rejects_telemetry[where intent = ?bulk
      and m = two_trucks and cmd = c1]] c1]
  note f2 = mp[OF conjunct2[OF resolveCommand_rejects_telemetry[where intent = ?single
      and m = two_trucks and cmd = c2]] c2]
  note f3 = mp[OF conjunct2[OF resolveCommand_rejects_telemetry[where intent = ?stated
      and m = two_trucks and cmd = c3]] c3]
  have e1: "rc_targetEntities c1 = [truck ''Haul_Truck_CAT_777_2'', truck ''Haul_Truck_CAT_777_3'']"
    using conjunct1[OF conjunct2[OF f1]] by (simp add: i all_trucks)
  have e2: "rc_targetEntities c2 = [truck ''Haul_Truck_CAT_777_3'']"
    using conjunct1[OF conjunct2[OF f2]] by (simp add: i exact_truck)
  have e3: "rc_targetEntities c3 = [truck ''Haul_Truck_CAT_777_2'', truck ''Haul_Truck_CAT_777_3'']"
    using conjunct1[OF conjunct2[OF f3]] by (simp add: i all_trucks)
  have b: "source (rc_property c1) = Src_dtdl \<and> rc_scope c1 = Bulk \<and>
           length (rc_targetEntities c1) = 2"
    using conjunct1[OF f1] conjunct2[OF conjunct2[OF f1]] by (simp add: i e1)
  have s: "source (rc_property c2) = Src_dtdl \<and> rc_scope c2 = Single \<and>
           length (rc_targetEntities c2) = 1"
    using conjunct1[OF f2] conjunct2[OF conjunct2[OF f2]] by (simp add: i e2)
  have st: "source (rc_property c3) = Src_dtdl \<and> rc_scope c3 = Single \<and>
           length (rc_targetEntities c3) = 2"
    using conjunct1[OF f3] conjunct2[OF conjunct2[OF f3]] by (simp add: i e3)
  show ?thesis
    using rej b s st by (simp add: all_trucks speed_is_telemetry c1 c2 c3)
qed

section \<open>Entity resolution\<close>

lemma map_of_find: "map_of m k = map_option snd (find (\<lambda>p. fst p = k) m)"
  by (induction m) auto

lemma find_filter: "find P (filter T xs) = find (\<lambda>x. T x \<and> P x) xs"
  by (induction xs) auto

lemma find_never: "find (\<lambda>x. False) xs = None"
  by (induction xs) auto

lemma find_mapped: "find P (map f xs) = map_option f (find (\<lambda>x. P (f x)) xs)"
  by (induction xs) auto

lemma stage_hit_0: "stage_hit reference 0 = (\<lambda>entry. fst entry = reference)"
  by (simp add: fun_eq_iff stage_hit_def)

lemma stage_hit_1: "stage_hit reference (Suc 0) = (\<lambda>entry. fst entry = normalize_reference reference)"
  by (simp add: fun_eq_iff stage_hit_def)

lemma stage_hit_2:
  "stage_hit reference 2 =
     (\<lambda>entry. toLowerCase (e_id (snd entry)) = normalize_reference reference)"
  by (simp add: fun_eq_iff stage_hit_def)

lemma stage_hit_3:
  "stage_hit reference 3 =
     (\<lambda>entry. filter (\<lambda>p. p \<noteq> []) (split_parts (normalize_reference reference)) \<noteq> [] \<and>
        list_all (\<lambda>part. str_includes (toLowerCase (e_id (snd entry))) part)
          (filter (\<lambda>p. p \<noteq> []) (split_parts (normalize_reference reference))))"
  by (simp add: fun_eq_iff stage_hit_def Let_def)

lemma stage_hit_4:
  "stage_hit reference 4 =
     (\<lambda>entry. case match_anchored typePattern (normalize_reference reference) of
              None \<Rightarrow> False
            | Some typeMatch \<Rightarrow>
                (case (typeMatch 2, typeMatch 4) of
                   (Some type, Some identifier) \<Rightarrow>
                     e_type (snd entry) = Some (typeName_of type) \<and>
                     str_includes (toLowerCase (e_id (snd entry))) (toLowerCase identifier) \<and>
                     (case typeMatch 6 of
                        Some subIdentifier \<Rightarrow>
                          subIdentifier = [] \<or>
                          str_includes (toLowerCase (e_id (snd entry))) (toLowerCase subIdentifier)
                      | None \<Rightarrow> True)
                 | _ \<Rightarrow> False))"
  by (simp add: fun_eq_iff stage_hit_def Let_def)

lemma stage_hit_5:
  "stage_hit reference 5 =
     (\<lambda>entry. filter is_key_part (split_parts (normalize_reference reference)) \<noteq> [] \<and>
        min 2 (length (filter is_key_part (split_parts (normalize_reference reference))))
          \<le> length (filter (\<lambda>part. str_includes (toLowerCase (e_id (snd entry))) part)
                      (filter is_key_part (split_parts (normalize_reference reference)))))"
  by (simp add: fun_eq_iff stage_hit_def Let_def)

lemma stage_0: "getEntity model reference = map_option snd (find (stage_hit reference 0) model)"
  by (simp add: getEntity_def map_of_find stage_hit_0)

lemma stage_1:
  "getEntity model (normalize_reference reference) =
     map_option snd (find (stage_hit reference (Suc 0)) model)"
  by (simp add: getEntity_def map_of_find stage_hit_1)

lemma stage_2:
  "case_insensitive_match (normalize_reference reference) (getAllEntities model) =
     map_option snd (find (stage_hit reference 2) model)"
  by (simp add: case_insensitive_match_def getAllEntities_def find_mapped stage_hit_2)

lemma stage_3:
  "partial_match (normalize_reference reference) (getAllEntities model) =
     map_option snd (find (stage_hit reference 3) model)"
  by (simp add: partial_match_def getAllEntities_def find_mapped stage_hit_3 Let_def
      find_never)

lemma stage_4:
  "type_identifier_match (normalize_reference reference) model =
     map_option snd (find (stage_hit reference 4) model)"
  by (auto simp: type_identifier_match_def getEntitiesByType_def getAllEntities_def find_mapped
      find_filter stage_hit_4 Let_def find_never filter_map comp_def split: option.splits)

lemma stage_5:
  "fuzzy_match (normalize_reference reference) (getAllEntities model) =
     map_option snd (find (stage_hit reference 5) model)"
  by (simp add: fuzzy_match_def getAllEntities_def find_mapped stage_hit_5 Let_def
      find_never)

lemma stages_find:
  "stages reference model =
     map (\<lambda>k. map_option snd (find (stage_hit reference k) model)) [0, 1, 2, 3, 4, 5]"
proof -
  have "stages reference model =
     [getEntity model reference,
      map_option snd (find (stage_hit reference (Suc 0)) model),
      map_option snd (find (stage_hit reference 2) model),
      map_option snd (find (stage_hit reference 3) model),
      map_option snd (find (stage_hit reference 4) model),
      map_option snd (find (stage_hit reference 5) model)]"
    by (simp only: stages_def Let_def stage_1 stage_2 stage_3 stage_4 stage_5)
  then show ?thesis by (simp add: stage_0)
qed

lemma first_hit_Some:
  "first_hit rs = Some x \<longleftrightarrow> (\<exists>k<length rs. rs ! k = Some x \<and> (\<forall>j<k. rs ! j = None))"
proof (induction rs rule: first_hit.induct)
  case 1
  then show ?case by simp
next
  case (2 rs)
  show ?case
  proof
    assume "first_hit (None # rs) = Some x"
    with 2 obtain k where "k < length rs" "rs ! k = Some x" "\<forall>j<k. rs ! j = None" by auto
    then have "Suc k < length (None # rs) \<and> (None # rs) ! Suc k = Some x \<and>
        (\<forall>j<Suc k. (None # rs) ! j = None)"
      by (auto simp: nth_Cons split: nat.splits)
    then show "\<exists>k<length (None # rs). (None # rs) ! k = Some x \<and> (\<forall>j<k. (None # rs) ! j = None)"
      by blast
  next
    assume "\<exists>k<length (None # rs). (None # rs) ! k = Some x \<and> (\<forall>j<k. (None # rs) ! j = None)"
    then obtain k where k: "k < length (None # rs)" "(None # rs) ! k = Some x"
      "\<forall>j<k. (None # rs) ! j = None" by blast
    then obtain k' where k': "k = Suc k'" by (cases k) auto
    have "k' < length rs" "rs ! k' = Some x" using k k' by auto
    moreover have "\<forall>j<k'. rs ! j = None"
    proof (intro allI impI)
      fix j assume "j < k'"
      then have "Suc j < k" using k' by simp
      with k(3) have "(None # rs) ! Suc j = None" by blast
      then show "rs ! j = None" by simp
    qed
    ultimately show "first_hit (None # rs) = Some x" using 2 by auto
  qed
next
  case (3 y rs)
  show ?case
  proof
    assume "first_hit (Some y # rs) = Some x"
    then have "y = x" by simp
    then have "0 < length (Some y # rs) \<and> (Some y # rs) ! 0 = Some x \<and>
        (\<forall>j<0. (Some y # rs) ! j = None)" by simp
    then show "\<exists>k<length (Some y # rs). (Some y # rs) ! k = Some x \<and>
        (\<forall>j<k. (Some y # rs) ! j = None)" by blast
  next
    assume "\<exists>k<length (Some y # rs). (Some y # rs) ! k = Some x \<and>
        (\<forall>j<k. (Some y # rs) ! j = None)"
    then obtain k where k: "(Some y # rs) ! k = Some x" "\<forall>j<k. (Some y # rs) ! j = None"
      by blast
    have "k = 0"
    proof (rule ccontr)
      assume "k \<noteq> 0"
      then have "0 < k" by simp
      with k(2) have "(Some y # rs) ! 0 = None" by blast
      then show False by simp
    qed
    with k(1) show "first_hit (Some y # rs) = Some x" by simp
  qed
qed

lemma first_hit_None: "first_hit rs = None \<longleftrightarrow> (\<forall>k<length rs. rs ! k = None)"
proof (induction rs rule: first_hit.induct)
  case 1
  then show ?case by simp
next
  case (2 rs)
  then show ?case by (auto simp: nth_Cons split: nat.splits)
next
  case (3 y rs)
  then show ?case by auto
qed

lemma stages_nth:
  "k < 6 \<Longrightarrow> stages reference model ! k = map_option snd (find (stage_hit reference k) model)"
proof -
  assume "k < 6"
  then have "k = 0 \<or> k = 1 \<or> k = 2 \<or> k = 3 \<or> k = 4 \<or> k = 5" by arith
  then show ?thesis by (auto simp: stages_find)
qed

lemma stages_length: "length (stages reference model) = 6"
  by (simp add: stages_find)

lemma stage_result_Some:
  "map_option snd (find H model) = Some e \<longleftrightarrow>
     (\<exists>i<length model. snd (model ! i) = e \<and> H (model ! i) \<and> (\<forall>j<i. \<not> H (model ! j)))"
proof
  assume "map_option snd (find H model) = Some e"
  then obtain entry where "find H model = Some entry" "snd entry = e" by auto
  then show "\<exists>i<length model. snd (model ! i) = e \<and> H (model ! i) \<and> (\<forall>j<i. \<not> H (model ! j))"
    unfolding find_Some_iff by blast
next
  assume "\<exists>i<length model. snd (model ! i) = e \<and> H (model ! i) \<and> (\<forall>j<i. \<not> H (model ! j))"
  then obtain i where i: "i < length model" "snd (model ! i) = e" "H (model ! i)"
    "\<forall>j<i. \<not> H (model ! j)" by blast
  then have "find H model = Some (model ! i)"
    unfolding find_Some_iff by blast
  with i(2) show "map_option snd (find H model) = Some e" by simp
qed

lemma stage_result_None:
  "map_option snd (find H model) = None \<longleftrightarrow> (\<forall>entry\<in>set model. \<not> H entry)"
  by (auto simp: find_None_iff)

lemma resolve_Inr:
  "resolve reference model = Inr e \<longleftrightarrow>
     (\<exists>k<6. \<exists>i<length model. snd (model ! i) = e \<and> stage_hit reference k (model ! i) \<and>
        (\<forall>j<i. \<not> stage_hit reference k (model ! j)) \<and>
        (\<forall>k'<k. \<forall>entry\<in>set model. \<not> stage_hit reference k' entry))"
proof -
  have "resolve reference model = Inr e \<longleftrightarrow> first_hit (stages reference model) = Some e"
    by (simp add: resolve_def stages_def Let_def split: option.splits)
  also have "\<dots> \<longleftrightarrow> (\<exists>k<6. stages reference model ! k = Some e \<and>
      (\<forall>j<k. stages reference model ! j = None))"
    by (simp add: first_hit_Some stages_length)
  also have "\<dots> \<longleftrightarrow> (\<exists>k<6. map_option snd (find (stage_hit reference k) model) = Some e \<and>
      (\<forall>j<k. map_option snd (find (stage_hit reference j) model) = None))"
    by (intro ex_cong1 conj_cong refl) (auto simp: stages_nth)
  also have "\<dots> \<longleftrightarrow> (\<exists>k<6. \<exists>i<length model. snd (model ! i) = e \<and>
        stage_hit reference k (model ! i) \<and>
        (\<forall>j<i. \<not> stage_hit reference k (model ! j)) \<and>
        (\<forall>k'<k. \<forall>entry\<in>set model. \<not> stage_hit reference k' entry))"
    unfolding stage_result_Some stage_result_None by blast
  finally show ?thesis .
qed

lemma resolve_Inl:
  "resolve reference model = Inl err \<longleftrightarrow>
     (err = ENTITY_NOT_FOUND reference \<and>
      (\<forall>k<6. \<forall>entry\<in>set model. \<not> stage_hit reference k entry))"
proof -
  have "resolve reference model = Inl err \<longleftrightarrow>
      (err = ENTITY_NOT_FOUND reference \<and> first_hit (stages reference model) = None)"
    by (auto simp: resolve_def stages_def Let_def split: option.splits)
  also have "first_hit (stages reference model) = None \<longleftrightarrow>
      (\<forall>k<6. stages reference model ! k = None)"
    by (simp add: first_hit_None stages_length)
  also have "\<dots> \<longleftrightarrow> (\<forall>k<6. map_option snd (find (stage_hit reference k) model) = None)"
    by (auto simp: stages_nth)
  finally show ?thesis unfolding stage_result_None .
qed


lemma map_set_fresh: "k \<notin> fst ` set m \<Longrightarrow> map_set k v m = m @ [(k, v)]"
  by (induction m) auto

lemma foldl_addEntity:
  "distinct (map fst m @ map e_id es) \<Longrightarrow>
   foldl addEntity m es = m @ map (\<lambda>e. (e_id e, e)) es"
proof (induction es arbitrary: m)
  case Nil
  then show ?case by simp
next
  case (Cons e es)
  from Cons.prems have fresh: "e_id e \<notin> fst ` set m" by auto
  from Cons.prems have "distinct (map fst (m @ [(e_id e, e)]) @ map e_id es)" by auto
  from Cons.IH[OF this] fresh show ?case
    by (simp add: addEntity_def map_set_fresh)
qed

text \<open>The model holds entities with distinct ids under their ids, in the order they were
  given.\<close>

lemma insertion_order:
  "distinct (map e_id es) \<Longrightarrow> newDTDLModel es = map (\<lambda>e. (e_id e, e)) es"
  using foldl_addEntity[of "[]" es]
  by (simp add: newDTDLModel_def)

lemma model_two:
  "e_id a \<noteq> e_id b \<Longrightarrow> newDTDLModel [a, b] = [(e_id a, a), (e_id b, b)]"
  by (simp add: newDTDLModel_def addEntity_def)

lemma lower_target: "toLowerCase ''Haul_Truck_CAT_777_2'' = ''haul_truck_cat_777_2''"
  by code_simp

lemma lower_decoy: "toLowerCase ''Haul_Truck_CAT_777_20'' = ''haul_truck_cat_777_20''"
  by code_simp

lemma norm_ref: "normalize_reference ''truck 777 2'' = ''truck_777_2''"
  by code_simp

lemma parts_ref:
  "filter (\<lambda>p. p \<noteq> []) (split_parts ''truck_777_2'') = [''truck'', ''777'', ''2'']"
  by code_simp

lemma pattern_ref: "match_anchored typePattern ''truck_777_2'' = None"
proof -
  have "Option.is_none (match_anchored typePattern ''truck_777_2'')" by code_simp
  then show ?thesis by (simp add: Option.is_none_def)
qed

lemma less_3: "k < 3 \<longleftrightarrow> k = 0 \<or> k = Suc 0 \<or> k = (2::nat)"
  by arith

lemma example_hits:
  assumes "e_id a = ''Haul_Truck_CAT_777_2'' \<or> e_id a = ''Haul_Truck_CAT_777_20''"
  shows "\<forall>k<3. \<not> stage_hit ''truck 777 2'' k (e_id a, a)"
    and "stage_hit ''truck 777 2'' 3 (e_id a, a)"
  using assms
  by (auto simp: less_3 stage_hit_def norm_ref parts_ref lower_target lower_decoy Let_def)

lemma example_resolved:
  assumes "e_id a = ''Haul_Truck_CAT_777_2'' \<or> e_id a = ''Haul_Truck_CAT_777_20''"
    and "e_id b = ''Haul_Truck_CAT_777_2'' \<or> e_id b = ''Haul_Truck_CAT_777_20''"
    and "e_id a \<noteq> e_id b"
  shows "resolve ''truck 777 2'' (newDTDLModel [a, b]) = Inr a"
proof -
  let ?m = "[(e_id a, a), (e_id b, b)]"
  have "0 < length ?m \<and> snd (?m ! 0) = a \<and> stage_hit ''truck 777 2'' 3 (?m ! 0) \<and>
      (\<forall>j<0. \<not> stage_hit ''truck 777 2'' 3 (?m ! j)) \<and>
      (\<forall>k'<3. \<forall>entry\<in>set ?m. \<not> stage_hit ''truck 777 2'' k' entry)"
    using example_hits[OF assms(1)] example_hits[OF assms(2)] by simp
  then have "\<exists>i<length ?m. snd (?m ! i) = a \<and> stage_hit ''truck 777 2'' 3 (?m ! i) \<and>
      (\<forall>j<i. \<not> stage_hit ''truck 777 2'' 3 (?m ! j)) \<and>
      (\<forall>k'<3. \<forall>entry\<in>set ?m. \<not> stage_hit ''truck 777 2'' k' entry)"
    by (rule exI[of _ 0])
  moreover have "(3::nat) < 6" by simp
  ultimately
  have "\<exists>k<6. \<exists>i<length ?m. snd (?m ! i) = a \<and> stage_hit ''truck 777 2'' k (?m ! i) \<and>
      (\<forall>j<i. \<not> stage_hit ''truck 777 2'' k (?m ! j)) \<and>
      (\<forall>k'<k. \<forall>entry\<in>set ?m. \<not> stage_hit ''truck 777 2'' k' entry)"
    by blast
  then show ?thesis
    unfolding model_two[OF assms(3)] resolve_Inr .
qed

text \<open>
  C1 (as amended). The resolver tries six stages in a fixed order, and at each stage the
  first entry of the model, in insertion order, that matches is the hit: a reference is
  resolved to an entity exactly when, for some stage, the entity is that of the first
  entry matching at this stage and no entry matches at an earlier stage; it is not found
  exactly when no entry matches at any stage. The model holds its entities in insertion
  order. For a model of an entity with the id "Haul_Truck_CAT_777_2" and one with the id
  "Haul_Truck_CAT_777_20", the reference "truck 777 2" matches neither at the three
  equality stages and both at the partial match, which resolves it to the entity that
  was inserted first.
\<close>

theorem resolve_first_inserted:
  "(resolve reference model = Inr e \<longleftrightarrow>
      (\<exists>k<6. \<exists>i<length model. snd (model ! i) = e \<and> stage_hit reference k (model ! i) \<and>
         (\<forall>j<i. \<not> stage_hit reference k (model ! j)) \<and>
         (\<forall>k'<k. \<forall>entry\<in>set model. \<not> stage_hit reference k' entry)))
   \<and> (resolve reference model = Inl err \<longleftrightarrow>
        err = ENTITY_NOT_FOUND reference \<and>
        (\<forall>k<6. \<forall>entry\<in>set model. \<not> stage_hit reference k entry))
   \<and> (distinct (map e_id es) \<longrightarrow> newDTDLModel es = map (\<lambda>x. (e_id x, x)) es)
   \<and> (e_id a = ''Haul_Truck_CAT_777_2'' \<and> e_id b = ''Haul_Truck_CAT_777_20'' \<longrightarrow>
        (\<forall>k<3. \<not> stage_hit ''truck 777 2'' k (e_id a, a) \<and>
               \<not> stage_hit ''truck 777 2'' k (e_id b, b)) \<and>
        stage_hit ''truck 777 2'' 3 (e_id a, a) \<and>
        stage_hit ''truck 777 2'' 3 (e_id b, b) \<and>
        resolve ''truck 777 2'' (newDTDLModel [a, b]) = Inr a \<and>
        resolve ''truck 777 2'' (newDTDLModel [b, a]) = Inr b)"
proof (intro conjI impI)
  show "resolve reference model = Inr e \<longleftrightarrow>
      (\<exists>k<6. \<exists>i<length model. snd (model ! i) = e \<and> stage_hit reference k (model ! i) \<and>
         (\<forall>j<i. \<not> stage_hit reference k (model ! j)) \<and>
         (\<forall>k'<k. \<forall>entry\<in>set model. \<not> stage_hit reference k' entry))"
    by (rule resolve_Inr)
  show "resolve reference model = Inl err \<longleftrightarrow>
        err = ENTITY_NOT_FOUND reference \<and>
        (\<forall>k<6. \<forall>entry\<in>set model. \<not> stage_hit reference k entry)"
    by (rule resolve_Inl)
next
  assume "distinct (map e_id es)"
  then show "newDTDLModel es = map (\<lambda>x. (e_id x, x)) es" by (rule insertion_order)
next
  assume ids: "e_id a = ''Haul_Truck_CAT_777_2'' \<and> e_id b = ''Haul_Truck_CAT_777_20''"
  then have a: "e_id a = ''Haul_Truck_CAT_777_2'' \<or> e_id a = ''Haul_Truck_CAT_777_20''"
    and b: "e_id b = ''Haul_Truck_CAT_777_2'' \<or> e_id b = ''Haul_Truck_CAT_777_20''"
    and ab: "e_id a \<noteq> e_id b" "e_id b \<noteq> e_id a"
    by simp_all
  show "\<forall>k<3. \<not> stage_hit ''truck 777 2'' k (e_id a, a) \<and>
               \<not> stage_hit ''truck 777 2'' k (e_id b, b)"
    using example_hits(1)[OF a] example_hits(1)[OF b] by blast
  show "stage_hit ''truck 777 2'' 3 (e_id a, a)" by (rule example_hits(2)[OF a])
  show "stage_hit ''truck 777 2'' 3 (e_id b, b)" by (rule example_hits(2)[OF b])
  show "resolve ''truck 777 2'' (newDTDLModel [a, b]) = Inr a"
    by (rule example_resolved[OF a b ab(1)])
  show "resolve ''truck 777 2'' (newDTDLModel [b, a]) = Inr b"
    by (rule example_resolved[OF b a ab(2)])
qed

lemma truck_id: "e_id (truck i) = i"
  by (simp add: truck_def)

lemma less_4: "k < 4 \<longleftrightarrow> k = 0 \<or> k = Suc 0 \<or> k = 2 \<or> k = (3::nat)"
  by arith

lemma less_6: "k < 6 \<longleftrightarrow> k = 0 \<or> k = Suc 0 \<or> k = 2 \<or> k = 3 \<or> k = 4 \<or> k = (5::nat)"
  by arith

lemma compact_hits:
  "map (\<lambda>k. map (stage_hit ''truck777'' k)
        [(''Haul_Truck_CAT_777_20'', truck ''Haul_Truck_CAT_777_20''),
         (''Haul_Truck_CAT_777_2'', truck ''Haul_Truck_CAT_777_2'')]) [0, Suc 0, 2, 3, 4]
   = [[False, False], [False, False], [False, False], [False, False], [True, True]]"
  by code_simp

lemma absent_hits:
  "map (\<lambda>k. map (stage_hit ''mill 9'' k)
        [(''Haul_Truck_CAT_777_20'', truck ''Haul_Truck_CAT_777_20''),
         (''Haul_Truck_CAT_777_2'', truck ''Haul_Truck_CAT_777_2'')]) [0, Suc 0, 2, 3, 4, 5]
   = [[False, False], [False, False], [False, False], [False, False], [False, False],
      [False, False]]"
  by code_simp

theorem resolve_first_inserted_witness:
  "e_id (truck ''Haul_Truck_CAT_777_2'') = ''Haul_Truck_CAT_777_2'' \<and>
   e_id (truck ''Haul_Truck_CAT_777_20'') = ''Haul_Truck_CAT_777_20'' \<and>
   distinct (map e_id [truck ''Haul_Truck_CAT_777_20'', truck ''Haul_Truck_CAT_777_2'']) \<and>
   newDTDLModel [truck ''Haul_Truck_CAT_777_20'', truck ''Haul_Truck_CAT_777_2'']
     = [(''Haul_Truck_CAT_777_20'', truck ''Haul_Truck_CAT_777_20''),
        (''Haul_Truck_CAT_777_2'', truck ''Haul_Truck_CAT_777_2'')] \<and>
   \<not> stage_hit ''truck 777 2'' 2 (''Haul_Truck_CAT_777_2'', truck ''Haul_Truck_CAT_777_2'') \<and>
   stage_hit ''truck 777 2'' 3 (''Haul_Truck_CAT_777_2'', truck ''Haul_Truck_CAT_777_2'') \<and>
   stage_hit ''truck 777 2'' 3 (''Haul_Truck_CAT_777_20'', truck ''Haul_Truck_CAT_777_20'') \<and>
   resolve ''truck 777 2''
     (newDTDLModel [truck ''Haul_Truck_CAT_777_2'', truck ''Haul_Truck_CAT_777_20''])
     = Inr (truck ''Haul_Truck_CAT_777_2'') \<and>
   resolve ''truck 777 2''
     (newDTDLModel [truck ''Haul_Truck_CAT_777_20'', truck ''Haul_Truck_CAT_777_2''])
     = Inr (truck ''Haul_Truck_CAT_777_20'') \<and>
   \<not> stage_hit ''truck777'' 3 (''Haul_Truck_CAT_777_20'', truck ''Haul_Truck_CAT_777_20'') \<and>
   stage_hit ''truck777'' 4 (''Haul_Truck_CAT_777_20'', truck ''Haul_Truck_CAT_777_20'') \<and>
   resolve ''truck777''
     (newDTDLModel [truck ''Haul_Truck_CAT_777_20'', truck ''Haul_Truck_CAT_777_2''])
     = Inr (truck ''Haul_Truck_CAT_777_20'') \<and>
   resolve ''mill 9''
     (newDTDLModel [truck ''Haul_Truck_CAT_777_20'', truck ''Haul_Truck_CAT_777_2''])
     = Inl (ENTITY_NOT_FOUND ''mill 9'')"
proof -
  let ?a = "truck ''Haul_Truck_CAT_777_2''"
  let ?b = "truck ''Haul_Truck_CAT_777_20''"
  let ?m = "[(''Haul_Truck_CAT_777_20'', ?b), (''Haul_Truck_CAT_777_2'', ?a)]"
  note t = resolve_first_inserted[where a = ?a and b = ?b and es = "[?b, ?a]"]
  note c = resolve_first_inserted[where reference = "''truck777''" and model = ?m and e = ?b]
  note n = resolve_first_inserted[where reference = "''mill 9''" and model = ?m
      and err = "ENTITY_NOT_FOUND ''mill 9''"]
  have ids: "e_id ?a = ''Haul_Truck_CAT_777_2'' \<and> e_id ?b = ''Haul_Truck_CAT_777_20''"
    by (simp add: truck_id)
  have d: "distinct (map e_id [?b, ?a])"
    by (simp add: truck_id)
  have o: "newDTDLModel [?b, ?a] = ?m"
    using mp[OF conjunct1[OF conjunct2[OF conjunct2[OF t]]] d] by (simp add: truck_id)
  note r = mp[OF conjunct2[OF conjunct2[OF conjunct2[OF t]]] ids]
  have r2: "\<not> stage_hit ''truck 777 2'' 2 (''Haul_Truck_CAT_777_2'', ?a)"
    using conjunct1[OF r] by (simp add: truck_id)
  have r3: "stage_hit ''truck 777 2'' 3 (''Haul_Truck_CAT_777_2'', ?a)"
    "stage_hit ''truck 777 2'' 3 (''Haul_Truck_CAT_777_20'', ?b)"
    using r by (simp_all add: truck_id)
  have ch: "\<forall>k'<4. \<forall>entry\<in>set ?m. \<not> stage_hit ''truck777'' k' entry"
    "stage_hit ''truck777'' 4 (?m ! 0)"
    using compact_hits by (simp_all add: less_4)
  then have "\<exists>i<length ?m. snd (?m ! i) = ?b \<and> stage_hit ''truck777'' 4 (?m ! i) \<and>
      (\<forall>j<i. \<not> stage_hit ''truck777'' 4 (?m ! j)) \<and>
      (\<forall>k'<4. \<forall>entry\<in>set ?m. \<not> stage_hit ''truck777'' k' entry)"
    by (intro exI[of _ 0]) simp
  moreover have "(4::nat) < 6" by simp
  ultimately have "\<exists>k<6. \<exists>i<length ?m. snd (?m ! i) = ?b \<and> stage_hit ''truck777'' k (?m ! i) \<and>
      (\<forall>j<i. \<not> stage_hit ''truck777'' k (?m ! j)) \<and>
      (\<forall>k'<k. \<forall>entry\<in>set ?m. \<not> stage_hit ''truck777'' k' entry)"
    by blast
  then have c1: "resolve ''truck777'' ?m = Inr ?b"
    using conjunct1[OF c] by blast
  have c3: "\<not> stage_hit ''truck777'' 3 (''Haul_Truck_CAT_777_20'', ?b)"
    "stage_hit ''truck777'' 4 (''Haul_Truck_CAT_777_20'', ?b)"
    using ch by simp_all
  have "\<forall>k<6. \<forall>entry\<in>set ?m. \<not> stage_hit ''mill 9'' k entry"
    using absent_hits by (simp add: less_6)
  then have n1: "resolve ''mill 9'' ?m = Inl (ENTITY_NOT_FOUND ''mill 9'')"
    using conjunct1[OF conjunct2[OF n]] by blast
  have c1': "resolve ''truck777'' (newDTDLModel [?b, ?a]) = Inr ?b"
    unfolding o by (rule c1)
  have n1': "resolve ''mill 9'' (newDTDLModel [?b, ?a]) = Inl (ENTITY_NOT_FOUND ''mill 9'')"
    unfolding o by (rule n1)
  note ra = conjunct1[OF conjunct2[OF conjunct2[OF conjunct2[OF r]]]]
  note rb = conjunct2[OF conjunct2[OF conjunct2[OF conjunct2[OF r]]]]
  show ?thesis
    by (intro conjI)
       (rule conjunct1[OF ids] conjunct2[OF ids] d o r2 r3 ra rb c3 c1' n1')+
qed

theorem resolve_decoy_counterexample:
  "resolve ''truck 777 2''
     (newDTDLModel [truck ''Haul_Truck_CAT_777_20'', truck ''Haul_Truck_CAT_777_2''])
     = Inr (truck ''Haul_Truck_CAT_777_20'') \<and>
   e_id (truck ''Haul_Truck_CAT_777_20'') \<noteq> ''Haul_Truck_CAT_777_2'' \<and>
   partial_match (normalize_reference ''truck 777 2'')
     (getAllEntities (newDTDLModel [truck ''Haul_Truck_CAT_777_20'', truck ''Haul_Truck_CAT_777_2'']))
     = Some (truck ''Haul_Truck_CAT_777_20'') \<and>
   type_identifier_match (normalize_reference ''truck 777 2'')
     (newDTDLModel [truck ''Haul_Truck_CAT_777_20'', truck ''Haul_Truck_CAT_777_2'']) = None"
proof -
  have ids: "e_id (truck ''Haul_Truck_CAT_777_20'') = ''Haul_Truck_CAT_777_2'' \<or>
      e_id (truck ''Haul_Truck_CAT_777_20'') = ''Haul_Truck_CAT_777_20''"
    "e_id (truck ''Haul_Truck_CAT_777_2'') = ''Haul_Truck_CAT_777_2'' \<or>
      e_id (truck ''Haul_Truck_CAT_777_2'') = ''Haul_Truck_CAT_777_20''"
    "e_id (truck ''Haul_Truck_CAT_777_20'') \<noteq> e_id (truck ''Haul_Truck_CAT_777_2'')"
    by (simp_all add: truck_id)
  have "resolve ''truck 777 2''
     (newDTDLModel [truck ''Haul_Truck_CAT_777_20'', truck ''Haul_Truck_CAT_777_2''])
     = Inr (truck ''Haul_Truck_CAT_777_20'')"
    by (rule example_resolved[OF ids])
  moreover have "e_id (truck ''Haul_Truck_CAT_777_20'') \<noteq> ''Haul_Truck_CAT_777_2''"
    by (simp add: truck_id)
  moreover have "partial_match (normalize_reference ''truck 777 2'')
     (getAllEntities (newDTDLModel [truck ''Haul_Truck_CAT_777_20'', truck ''Haul_Truck_CAT_777_2'']))
     = Some (truck ''Haul_Truck_CAT_777_20'')"
    by (simp add: model_two truck_id getAllEntities_def norm_ref partial_match_def parts_ref
        lower_target lower_decoy Let_def)
  moreover have "type_identifier_match (normalize_reference ''truck 777 2'')
     (newDTDLModel [truck ''Haul_Truck_CAT_777_20'', truck ''Haul_Truck_CAT_777_2'']) = None"
    by (simp add: type_identifier_match_def norm_ref pattern_ref)
  ultimately show ?thesis by blast
qed

end
